theory Spec2Isabelle
  imports Main "HOL-Library.AList"
begin

section \<open>Values, the syntax tree and the interpreter state\<close>

text \<open>
  The interpreter of \<open>src/lib/EsprimaParser/index.js\<close> walks an ESTree syntax tree.
  JavaScript values are modelled by \<open>val\<close>: objects and functions are references
  (\<open>Obj r\<close> into the object heap, \<open>Fun i\<close> into the table of function agents,
  \<open>Native n\<close> a function of the host), errors raised by the host language itself
  (a call of a non-function, a property read on null) are \<open>HostError\<close> values.
\<close>

datatype val =
    Undefined
  | Null
  | Bool bool
  | Num int
  | Str string
  | Obj nat
  | Fun nat
  | Native string
  | HostError string

text \<open>
  ESTree nodes. Optional children are options, \<open>loc\<close> is kept where the interpreter
  reads it (call and assignment sites). A catch clause is the pair of its parameter
  and body, a variable declarator the pair of its id and optional initialiser, a
  switch case the pair of its optional test and its consequent.
\<close>

datatype node =
    Program "node list"
  | ExpressionStatement node
  | BlockStatement "node list"
  | EmptyStatement
  | ReturnStatement "node option"
  | LabeledStatement node node
  | BreakStatement "node option"
  | ContinueStatement "node option"
  | IfStatement node node "node option"
  | SwitchStatement node "(node option \<times> node list) list"
  | SwitchCase "node option" "node list"
  | ThrowStatement node
  | TryStatement node "(node \<times> node) option" "node option"
  | WhileStatement node node
  | DoWhileStatement node node
  | ForStatement "node option" "node option" "node option" node
  | ForInStatement node node node
  | FunctionDeclaration node "node list" node
  | VariableDeclaration string "(node \<times> node option) list"
  | ThisExpression
  | ArrayExpression "node option list"
  | ObjectExpression "node list"
  | Property node bool node
  | FunctionExpression "node option" "node list" node
  | UnaryExpression string node
  | UpdateExpression string bool node
  | BinaryExpression string node node
  | AssignmentExpression nat string node node
  | LogicalExpression string node node
  | MemberExpression node node bool
  | ConditionalExpression node node node
  | CallExpression nat node "node list"
  | NewExpression node "node list"
  | SequenceExpression "node list"
  | Identifier string
  | Literal val "(string \<times> string) option"

section \<open>The host language: truthiness, property keys, objects\<close>

text \<open>
  What JavaScript itself does with values: \<open>toBoolean\<close> is the truthiness used by
  \<open>if\<close>, \<open>||\<close> and loop tests, \<open>toPropertyKey\<close> the coercion of a value used as a
  property name, \<open>strictEquals\<close> the operator \<open>===\<close>.
\<close>

fun toBoolean :: "val \<Rightarrow> bool" where
  "toBoolean Undefined = False"
| "toBoolean Null = False"
| "toBoolean (Bool b) = b"
| "toBoolean (Num n) = (n \<noteq> 0)"
| "toBoolean (Str s) = (s \<noteq> [])"
| "toBoolean (Obj r) = True"
| "toBoolean (Fun i) = True"
| "toBoolean (Native n) = True"
| "toBoolean (HostError m) = True"

fun digits :: "nat \<Rightarrow> string" where
  "digits n = (if n < 10 then [char_of (48 + n)]
               else digits (n div 10) @ [char_of (48 + n mod 10)])"

declare digits.simps [simp del]

fun toPropertyKey :: "val \<Rightarrow> string" where
  "toPropertyKey Undefined = ''undefined''"
| "toPropertyKey Null = ''null''"
| "toPropertyKey (Bool b) = (if b then ''true'' else ''false'')"
| "toPropertyKey (Num n) = (if n < 0 then CHR ''-'' # digits (nat (- n)) else digits (nat n))"
| "toPropertyKey (Str s) = s"
| "toPropertyKey (Obj r) = ''[object Object]''"
| "toPropertyKey (Fun i) = ''function''"
| "toPropertyKey (Native n) = ''function''"
| "toPropertyKey (HostError m) = m"

definition strictEquals :: "val \<Rightarrow> val \<Rightarrow> bool" where
  "strictEquals a b = (a = b)"

definition typeError :: val where
  "typeError = HostError ''TypeError''"

text \<open>
  Host objects live in a heap, a list indexed by reference. An object has the host
  class it is an instance of (what \<open>instanceof\<close> tests against the constructors of the
  context) and its own properties in insertion order.
\<close>

datatype hostClass =
    PlainObject | ArrayObject | ArgumentsObject | RegExpObject
  | CSSStyleDeclaration | DOMTokenList | Attr | JQuery

record obj =
  cls :: hostClass
  props :: "(string \<times> val) list"

definition heapGet :: "obj list \<Rightarrow> nat \<Rightarrow> obj" where
  "heapGet h r = (if r < length h then h ! r else \<lparr>cls = PlainObject, props = []\<rparr>)"

definition heapSetProp :: "obj list \<Rightarrow> nat \<Rightarrow> string \<Rightarrow> val \<Rightarrow> obj list" where
  "heapSetProp h r k v =
     (if r < length h then h[r := (h ! r)\<lparr>props := AList.update k v (props (h ! r))\<rparr>] else h)"

definition heapDeleteProp :: "obj list \<Rightarrow> nat \<Rightarrow> string \<Rightarrow> obj list" where
  "heapDeleteProp h r k =
     (if r < length h then h[r := (h ! r)\<lparr>props := AList.delete k (props (h ! r))\<rparr>] else h)"

definition hasOwnProperty :: "obj list \<Rightarrow> val \<Rightarrow> string \<Rightarrow> bool" where
  "hasOwnProperty h v k =
     (case v of Obj r \<Rightarrow> map_of (props (heapGet h r)) k \<noteq> None | _ \<Rightarrow> False)"

definition instanceOf :: "obj list \<Rightarrow> val \<Rightarrow> hostClass \<Rightarrow> bool" where
  "instanceOf h v c = (case v of Obj r \<Rightarrow> r < length h \<and> cls (heapGet h r) = c | _ \<Rightarrow> False)"

text \<open>The keys a \<open>for-in\<close> loop visits: the own properties of an object in the host's order.\<close>

definition enumerableKeys :: "obj list \<Rightarrow> val \<Rightarrow> val list" where
  "enumerableKeys h v =
     (case v of
        Obj r \<Rightarrow>
          (let ob = heapGet h r;
               ks = map fst (props ob)
           in map Str (if cls ob = ArrayObject \<or> cls ob = ArgumentsObject
                       then filter (\<lambda>k. k \<noteq> ''length'') ks else ks))
      | Str s \<Rightarrow> map (\<lambda>i. Str (digits i)) [0 ..< length s]
      | _ \<Rightarrow> [])"

text \<open>An array-like object holding the given values at the indices 0, 1, ...\<close>

definition arrayProps :: "val list \<Rightarrow> (string \<times> val) list" where
  "arrayProps vs =
     map (\<lambda>(i, v). (digits i, v)) (zip [0 ..< length vs] vs) @ [(''length'', Num (int (length vs)))]"

definition arrayElements :: "obj list \<Rightarrow> nat \<Rightarrow> val list" where
  "arrayElements h r =
     (let ps = props (heapGet h r);
          n = (case map_of ps ''length'' of Some (Num k) \<Rightarrow> nat k | _ \<Rightarrow> 0)
      in map (\<lambda>i. case map_of ps (digits i) of Some v \<Rightarrow> v | None \<Rightarrow> Undefined) [0 ..< n])"

section \<open>FlowState, ClosureStack, Callee, Collection\<close>

datatype flag = BREAK | CONTINUE | RETURN

text \<open>
  Modelled from the spec: \<open>structures/FlowState\<close> is not among the sources. The spec:
  the register holds a subset of BREAK, CONTINUE, RETURN and an optional label name,
  null when absent.
\<close>

record FlowState =
  state :: "flag set"
  label :: val

definition newFlowState :: FlowState where
  "newFlowState = \<lparr>state = {}, label = Null\<rparr>"

definition FlowState_set :: "flag \<Rightarrow> FlowState \<Rightarrow> FlowState" where
  "FlowState_set f fs = fs\<lparr>state := insert f (state fs)\<rparr>"

definition FlowState_unset :: "flag \<Rightarrow> FlowState \<Rightarrow> FlowState" where
  "FlowState_unset f fs = fs\<lparr>state := state fs - {f}\<rparr>"

definition setBreak :: "FlowState \<Rightarrow> FlowState" where
  "setBreak = FlowState_set BREAK"

definition unsetBreak :: "FlowState \<Rightarrow> FlowState" where
  "unsetBreak = FlowState_unset BREAK"

definition setContinue :: "FlowState \<Rightarrow> FlowState" where
  "setContinue = FlowState_set CONTINUE"

definition unsetContinue :: "FlowState \<Rightarrow> FlowState" where
  "unsetContinue = FlowState_unset CONTINUE"

definition setLabel :: "val \<Rightarrow> FlowState \<Rightarrow> FlowState" where
  "setLabel l fs = fs\<lparr>label := l\<rparr>"

definition unsetLabel :: "FlowState \<Rightarrow> FlowState" where
  "unsetLabel fs = fs\<lparr>label := Null\<rparr>"

definition isNullLabel :: "FlowState \<Rightarrow> bool" where
  "isNullLabel fs = (label fs = Null)"

definition isLabelMatched :: "val \<Rightarrow> FlowState \<Rightarrow> bool" where
  "isLabelMatched l fs = strictEquals (label fs) l"

definition isBreakState :: "FlowState \<Rightarrow> bool" where
  "isBreakState fs = (BREAK \<in> state fs)"

definition isContinueState :: "FlowState \<Rightarrow> bool" where
  "isContinueState fs = (CONTINUE \<in> state fs)"

definition isReturnState :: "FlowState \<Rightarrow> bool" where
  "isReturnState fs = (RETURN \<in> state fs)"

definition isEitherState :: "FlowState \<Rightarrow> bool" where
  "isEitherState fs = (state fs \<noteq> {})"

text \<open>
  Modelled from the spec: \<open>structures/ClosureStack\<close> is not among the sources. The spec:
  an ordered sequence of frames, each a mapping from names to values; \<open>set\<close> defines on
  the innermost frame; \<open>update\<close> walks outward until a frame defines the name and writes
  there, falling back to the outermost; \<open>get\<close> walks outward; a clone is an independent
  snapshot. The innermost frame is the head of the list; the stack is built from the
  properties of the context; a name is a property key of its frame; a name no frame
  defines reads as undefined.
\<close>

type_synonym frame = "(string \<times> val) list"

type_synonym ClosureStack = "frame list"

definition newClosureStack :: "obj list \<Rightarrow> val \<Rightarrow> ClosureStack" where
  "newClosureStack h context =
     [case context of Obj r \<Rightarrow> props (heapGet h r) | _ \<Rightarrow> []]"

fun ClosureStack_get :: "ClosureStack \<Rightarrow> val \<Rightarrow> val" where
  "ClosureStack_get [] name = Undefined"
| "ClosureStack_get (fr # rest) name =
     (case map_of fr (toPropertyKey name) of
        Some v \<Rightarrow> v
      | None \<Rightarrow> ClosureStack_get rest name)"

fun ClosureStack_set :: "ClosureStack \<Rightarrow> val \<Rightarrow> val \<Rightarrow> ClosureStack" where
  "ClosureStack_set [] name v = [[(toPropertyKey name, v)]]"
| "ClosureStack_set (fr # rest) name v = AList.update (toPropertyKey name) v fr # rest"

fun ClosureStack_update :: "ClosureStack \<Rightarrow> val \<Rightarrow> val \<Rightarrow> ClosureStack" where
  "ClosureStack_update [] name v = [[(toPropertyKey name, v)]]"
| "ClosureStack_update [fr] name v = [AList.update (toPropertyKey name) v fr]"
| "ClosureStack_update (fr # rest) name v =
     (if map_of fr (toPropertyKey name) \<noteq> None
      then AList.update (toPropertyKey name) v fr # rest
      else fr # ClosureStack_update rest name v)"

definition createClosure :: "ClosureStack \<Rightarrow> ClosureStack" where
  "createClosure cs = [] # cs"

definition getClone :: "ClosureStack \<Rightarrow> ClosureStack" where
  "getClone cs = cs"

text \<open>
  Modelled from the spec: \<open>structures/Callee\<close> is not among the sources. The spec: a
  wrapper \<open>{method, arguments?}\<close> marking a reference that will be called; the arguments
  are attached after the argument list has been evaluated. The callee of a reference is
  either such a wrapper or a plain name or key.
\<close>

datatype callee =
    Plain val
  | Callee val "val list option"

definition createCallee :: "val \<Rightarrow> callee" where
  "createCallee method = Callee method None"

definition addArguments :: "val list \<Rightarrow> callee \<Rightarrow> callee" where
  "addArguments args c = (case c of Callee m a \<Rightarrow> Callee m (Some args) | Plain m \<Rightarrow> Plain m)"

text \<open>The \<open>info\<close> of a reference: \<open>loc\<close>, the regenerated source text and the script URL.\<close>

type_synonym info = "nat \<times> string \<times> val"

record exp =
  caller :: val
  callee :: callee
  info :: "info option"

text \<open>
  Modelled from the spec: \<open>structures/Collection\<close> is not among the sources. The spec:
  an append-only store; one entry \<open>{element, type, info}\<close> is appended for each element.
\<close>

type_synonym entry = "val \<times> val \<times> info option"

definition addInfoToElements :: "val list \<Rightarrow> val \<Rightarrow> info option \<Rightarrow> entry list \<Rightarrow> entry list" where
  "addInfoToElements elements ty i coll = coll @ map (\<lambda>e. (e, ty, i)) elements"

section \<open>The interpreter state and its computations\<close>

text \<open>
  An environment is the pair \<open>{scriptUrl, closureStack}\<close> that \<open>getEnvironment\<close> reads from
  the interpreter and from a function agent's data alike. The interpreter
  (\<open>class EsprimaParser\<close>) owns moreover the context, the check flag, the collection and the
  flow state; the object heap and the table of the function agents created so far are the
  store of the host language.
\<close>

record environment =
  scriptUrl :: val
  closureStack :: ClosureStack

record functionAgentData = environment +
  body :: node
  params :: "val list"
  hoistings :: "val list"

record EsprimaParser = environment +
  hostContext :: val
  checkFlag :: bool
  collection :: "entry list"
  flowState :: FlowState
  heap :: "obj list"
  functionAgents :: "functionAgentData list"

text \<open>
  A computation returns a value, raises a JavaScript exception, or runs out of fuel
  (the model's bound on the depth of the walk and on the iterations of a loop).
\<close>

datatype 'a outcome = Normal 'a | Throw val | OutOfFuel

type_synonym 'a comp = "EsprimaParser \<Rightarrow> 'a outcome \<times> EsprimaParser"

definition return :: "'a \<Rightarrow> 'a comp" where
  "return v s = (Normal v, s)"

definition throw :: "val \<Rightarrow> 'a comp" where
  "throw e s = (Throw e, s)"

definition outOfFuel :: "'a comp" where
  "outOfFuel s = (OutOfFuel, s)"

definition bind :: "'a comp \<Rightarrow> ('a \<Rightarrow> 'b comp) \<Rightarrow> 'b comp" where
  "bind m f s =
     (case m s of
        (Normal v, s') \<Rightarrow> f v s'
      | (Throw e, s') \<Rightarrow> (Throw e, s')
      | (OutOfFuel, s') \<Rightarrow> (OutOfFuel, s'))"

definition gets :: "(EsprimaParser \<Rightarrow> 'a) \<Rightarrow> 'a comp" where
  "gets f s = (Normal (f s), s)"

definition modify :: "(EsprimaParser \<Rightarrow> EsprimaParser) \<Rightarrow> unit comp" where
  "modify f s = (Normal (), f s)"

text \<open>\<open>try { m } catch (e) { h e }\<close> and \<open>try { m } finally { f }\<close> of the host language.\<close>

definition tryCatch :: "'a comp \<Rightarrow> (val \<Rightarrow> 'a comp) \<Rightarrow> 'a comp" where
  "tryCatch m h s =
     (case m s of
        (Throw e, s') \<Rightarrow> h e s'
      | other \<Rightarrow> other)"

definition tryFinally :: "'a comp \<Rightarrow> unit comp \<Rightarrow> 'a comp" where
  "tryFinally m f s =
     (case m s of
        (OutOfFuel, s') \<Rightarrow> (OutOfFuel, s')
      | (out, s') \<Rightarrow>
          (case f s' of
             (Normal u, s'') \<Rightarrow> (out, s'')
           | (Throw e, s'') \<Rightarrow> (Throw e, s'')
           | (OutOfFuel, s'') \<Rightarrow> (OutOfFuel, s'')))"

primrec mapM :: "('a \<Rightarrow> 'b comp) \<Rightarrow> 'a list \<Rightarrow> 'b list comp" where
  "mapM f [] = return []"
| "mapM f (x # xs) = bind (f x) (\<lambda>y. bind (mapM f xs) (\<lambda>ys. return (y # ys)))"

primrec forEachM :: "('a \<Rightarrow> unit comp) \<Rightarrow> 'a list \<Rightarrow> unit comp" where
  "forEachM f [] = return ()"
| "forEachM f (x # xs) = bind (f x) (\<lambda>u. forEachM f xs)"

text \<open>
  The collaborators the interpreter is given: the operator tables (maps from operator
  string to pure function), the checker dispatcher (from the heap, the context, the
  caller and the callee to a status \<open>{type, target?}\<close> or nothing), the source regenerator
  \<open>escodegen.generate\<close>, and the functions of the host: a native function is called with
  a receiver and arguments, or constructed with arguments, on the heap.
\<close>

type_synonym status = "val \<times> val option"

record host =
  binaryOperators :: "string \<Rightarrow> (val \<Rightarrow> val \<Rightarrow> val) option"
  updateOperators :: "string \<Rightarrow> (val \<Rightarrow> val) option"
  importedUnaryOperators :: "string \<Rightarrow> (val \<Rightarrow> val) option"
  dispatch :: "obj list \<Rightarrow> val \<Rightarrow> val \<Rightarrow> callee \<Rightarrow> status option"
  generate :: "node \<Rightarrow> string"
  callNative :: "string \<Rightarrow> val \<Rightarrow> val list \<Rightarrow> obj list \<Rightarrow> val outcome \<times> obj list"
  constructNative :: "string \<Rightarrow> val list \<Rightarrow> obj list \<Rightarrow> val outcome \<times> obj list"
  jqueryGet :: "obj list \<Rightarrow> val \<Rightarrow> val list"

type_synonym parser = "node option \<Rightarrow> val \<Rightarrow> val comp"

subsection \<open>Member access of the host language on the heap\<close>

definition memberRead :: "val \<Rightarrow> val \<Rightarrow> val comp" where
  "memberRead object key =
     (case object of
        Undefined \<Rightarrow> throw typeError
      | Null \<Rightarrow> throw typeError
      | Obj r \<Rightarrow>
          gets (\<lambda>s. case map_of (props (heapGet (heap s) r)) (toPropertyKey key) of
                       Some v \<Rightarrow> v | None \<Rightarrow> Undefined)
      | _ \<Rightarrow> return Undefined)"

definition memberWrite :: "val \<Rightarrow> val \<Rightarrow> val \<Rightarrow> unit comp" where
  "memberWrite object key v =
     (case object of
        Undefined \<Rightarrow> throw typeError
      | Null \<Rightarrow> throw typeError
      | Bool b \<Rightarrow> throw typeError
      | Num n \<Rightarrow> throw typeError
      | Str str \<Rightarrow> throw typeError
      | Obj r \<Rightarrow> modify (\<lambda>s. s\<lparr>heap := heapSetProp (heap s) r (toPropertyKey key) v\<rparr>)
      | _ \<Rightarrow> return ())"

definition memberDelete :: "val \<Rightarrow> val \<Rightarrow> val comp" where
  "memberDelete object key =
     (case object of
        Undefined \<Rightarrow> throw typeError
      | Null \<Rightarrow> throw typeError
      | Obj r \<Rightarrow>
          bind (modify (\<lambda>s. s\<lparr>heap := heapDeleteProp (heap s) r (toPropertyKey key)\<rparr>))
            (\<lambda>u. return (Bool True))
      | _ \<Rightarrow> return (Bool True))"

definition allocate :: "hostClass \<Rightarrow> (string \<times> val) list \<Rightarrow> val comp" where
  "allocate c ps s =
     (Normal (Obj (length (heap s))), s\<lparr>heap := heap s @ [\<lparr>cls = c, props = ps\<rparr>]\<rparr>)"

definition calleeKey :: "callee \<Rightarrow> val" where
  "calleeKey c = (case c of Plain k \<Rightarrow> k | Callee m a \<Rightarrow> Str ''[object Object]'')"

section \<open>Hoisting\<close>

definition getNameFromPattern :: "node \<Rightarrow> val" where
  "getNameFromPattern pattern = (case pattern of Identifier name \<Rightarrow> Str name | _ \<Rightarrow> Undefined)"

definition getNameFromVariableDeclaration :: "(node \<times> node option) list \<Rightarrow> val list" where
  "getNameFromVariableDeclaration declarations = map (\<lambda>declaration. getNameFromPattern (fst declaration)) declarations"

text \<open>
  \<open>parseHoisting\<close>, with \<open>searchSubHoistings\<close> and \<open>searchHoistings\<close> unfolded at the
  statement's children so that the recursion is on the tree; \<open>filterSubStatements\<close> and
  \<open>searchHoistings\<close> follow, and \<open>parseHoisting_searchSubHoistings\<close> below is the
  source's \<open>default\<close> branch. An absent child (\<open>null\<close> in the list that
  \<open>filterSubStatements\<close> builds) is skipped by \<open>searchHoistings\<close>.
\<close>

fun parseHoisting :: "node \<Rightarrow> val list" where
  "parseHoisting (FunctionDeclaration i ps b) = [getNameFromPattern i]"
| "parseHoisting (VariableDeclaration kind declarations) =
     (if kind = ''var'' then getNameFromVariableDeclaration declarations else [])"
| "parseHoisting (BlockStatement b) = concat (map parseHoisting b)"
| "parseHoisting (IfStatement t c a) =
     parseHoisting c @ (case a of None \<Rightarrow> [] | Some a' \<Rightarrow> parseHoisting a')"
| "parseHoisting (SwitchStatement d cases) =
     concat (map (\<lambda>c. concat (map parseHoisting (snd c))) cases)"
| "parseHoisting (TryStatement b h f) =
     parseHoisting b
     @ (case h of None \<Rightarrow> [] | Some c \<Rightarrow> parseHoisting (snd c))
     @ (case f of None \<Rightarrow> [] | Some f' \<Rightarrow> parseHoisting f')"
| "parseHoisting (ForStatement i t u b) =
     (case i of None \<Rightarrow> [] | Some i' \<Rightarrow> parseHoisting i') @ parseHoisting b"
| "parseHoisting (ForInStatement l r b) = parseHoisting l @ parseHoisting b"
| "parseHoisting (WhileStatement t b) = parseHoisting b"
| "parseHoisting (DoWhileStatement b t) = parseHoisting b"
| "parseHoisting other = []"

definition searchHoistings :: "node option list \<Rightarrow> val list" where
  "searchHoistings statements =
     concat (map (\<lambda>statement. case statement of None \<Rightarrow> [] | Some st \<Rightarrow> parseHoisting st) statements)"

definition filterSubStatements :: "node \<Rightarrow> node option list" where
  "filterSubStatements statement =
     (case statement of
        BlockStatement b \<Rightarrow> map Some b
      | IfStatement t c a \<Rightarrow> [Some c, a]
      | SwitchStatement d cases \<Rightarrow> map Some (concat (map snd cases))
      | TryStatement b h f \<Rightarrow> [Some b, map_option snd h, f]
      | ForStatement i t u b \<Rightarrow> [i, Some b]
      | ForInStatement l r b \<Rightarrow> [Some l, Some b]
      | WhileStatement t b \<Rightarrow> [Some b]
      | DoWhileStatement b t \<Rightarrow> [Some b]
      | _ \<Rightarrow> [])"

definition searchSubHoistings :: "node \<Rightarrow> val list" where
  "searchSubHoistings statement = searchHoistings (filterSubStatements statement)"

definition setVariables :: "val \<Rightarrow> val \<Rightarrow> EsprimaParser \<Rightarrow> EsprimaParser" where
  "setVariables variables values s = s\<lparr>closureStack := ClosureStack_set (closureStack s) variables values\<rparr>"

definition updateVariables :: "val \<Rightarrow> val \<Rightarrow> EsprimaParser \<Rightarrow> EsprimaParser" where
  "updateVariables variables values s = s\<lparr>closureStack := ClosureStack_update (closureStack s) variables values\<rparr>"

definition setHoistings :: "val list \<Rightarrow> EsprimaParser \<Rightarrow> EsprimaParser" where
  "setHoistings hs s = foldl (\<lambda>s' hoisting. setVariables hoisting Undefined s') s hs"

definition handleHoisting :: "node list \<Rightarrow> EsprimaParser \<Rightarrow> EsprimaParser" where
  "handleHoisting statements s = setHoistings (searchHoistings (map Some statements)) s"

section \<open>Statements\<close>

definition flow :: "(FlowState \<Rightarrow> FlowState) \<Rightarrow> unit comp" where
  "flow f = modify (\<lambda>s. s\<lparr>flowState := f (flowState s)\<rparr>)"

definition isStatementLabelNeededToUnset :: "val \<Rightarrow> EsprimaParser \<Rightarrow> bool" where
  "isStatementLabelNeededToUnset l s =
     (\<not> isNullLabel (flowState s) \<and> isLabelMatched l (flowState s))"

definition handleStatementLabelState :: "val \<Rightarrow> EsprimaParser \<Rightarrow> EsprimaParser" where
  "handleStatementLabelState l s =
     (if isStatementLabelNeededToUnset l s
      then s\<lparr>flowState := unsetLabel (unsetBreak (flowState s))\<rparr>
      else s)"

definition isHoistingStatement :: "parser \<Rightarrow> node \<Rightarrow> bool comp" where
  "isHoistingStatement rec statement =
     (case statement of
        FunctionDeclaration i ps b \<Rightarrow> bind (rec (Some statement) Undefined) (\<lambda>r. return True)
      | _ \<Rightarrow> return False)"

primrec parseHoistingStatements :: "parser \<Rightarrow> node list \<Rightarrow> node list comp" where
  "parseHoistingStatements rec [] = return []"
| "parseHoistingStatements rec (statement # statements) =
     bind (isHoistingStatement rec statement) (\<lambda>hoisting.
     bind (parseHoistingStatements rec statements) (\<lambda>nonHoistingStatements.
     return (if hoisting then nonHoistingStatements else statement # nonHoistingStatements)))"

text \<open>The loop of \<open>parseNonHoistingStatements\<close>, from the result so far.\<close>

primrec parseNonHoistingLoop :: "parser \<Rightarrow> node list \<Rightarrow> val \<Rightarrow> val comp" where
  "parseNonHoistingLoop rec [] result = return result"
| "parseNonHoistingLoop rec (statement # statements) result =
     bind (rec (Some statement) Undefined) (\<lambda>result'.
     bind (gets (\<lambda>s. isEitherState (flowState s))) (\<lambda>stop.
     if stop then return result' else parseNonHoistingLoop rec statements result'))"

definition parseNonHoistingStatements :: "parser \<Rightarrow> node list \<Rightarrow> val comp" where
  "parseNonHoistingStatements rec statements = parseNonHoistingLoop rec statements Undefined"

definition parseStatements :: "parser \<Rightarrow> node list \<Rightarrow> val comp" where
  "parseStatements rec statements =
     bind (parseHoistingStatements rec statements) (\<lambda>nonHoistingStatements.
     parseNonHoistingStatements rec nonHoistingStatements)"

definition Program_parser :: "parser \<Rightarrow> node list \<Rightarrow> val comp" where
  "Program_parser rec b =
     bind (modify (handleHoisting b)) (\<lambda>u.
     bind (parseStatements rec b) (\<lambda>r. return Undefined))"

definition parseReturnArgument :: "parser \<Rightarrow> node option \<Rightarrow> val comp" where
  "parseReturnArgument rec argument =
     (case argument of Some a \<Rightarrow> rec (Some a) Undefined | None \<Rightarrow> return Undefined)"

definition ReturnStatement_parser :: "parser \<Rightarrow> node option \<Rightarrow> val comp" where
  "ReturnStatement_parser rec argument =
     bind (parseReturnArgument rec argument) (\<lambda>result.
     bind (flow (FlowState_set RETURN)) (\<lambda>u.
     return result))"

definition setFlowStateLabel :: "node option \<Rightarrow> unit comp" where
  "setFlowStateLabel labelNode =
     (case labelNode of
        Some l \<Rightarrow> flow (setLabel (getNameFromPattern l))
      | None \<Rightarrow> return ())"

definition BreakStatement_parser :: "node option \<Rightarrow> val comp" where
  "BreakStatement_parser l =
     bind (flow setBreak) (\<lambda>u. bind (setFlowStateLabel l) (\<lambda>u. return Undefined))"

definition ContinueStatement_parser :: "node option \<Rightarrow> val comp" where
  "ContinueStatement_parser l =
     bind (flow setContinue) (\<lambda>u. bind (setFlowStateLabel l) (\<lambda>u. return Undefined))"

definition IfStatement_parser :: "parser \<Rightarrow> node \<Rightarrow> node \<Rightarrow> node option \<Rightarrow> val comp" where
  "IfStatement_parser rec test consequent alternate =
     bind (rec (Some test) Undefined) (\<lambda>testPass.
     if toBoolean testPass then rec (Some consequent) Undefined else rec alternate Undefined)"

definition isCaseMatched :: "parser \<Rightarrow> node option \<Rightarrow> val \<Rightarrow> bool comp" where
  "isCaseMatched rec testExpression discriminant =
     (case testExpression of
        None \<Rightarrow> return True
      | Some t \<Rightarrow> bind (rec (Some t) Undefined) (\<lambda>v. return (strictEquals v discriminant)))"

definition parseMatchedCase :: "parser \<Rightarrow> (node option \<times> node list) list \<Rightarrow> val comp" where
  "parseMatchedCase rec switchCases =
     parseStatements rec (map (\<lambda>c. SwitchCase (fst c) (snd c)) switchCases)"

text \<open>The cases from the current index on: \<open>switchCases.slice(matchedIndex)\<close> is the list itself.\<close>

primrec parseSwitchCases :: "parser \<Rightarrow> (node option \<times> node list) list \<Rightarrow> val \<Rightarrow> val comp" where
  "parseSwitchCases rec [] discriminant = return Undefined"
| "parseSwitchCases rec (switchCase # switchCases) discriminant =
     bind (isCaseMatched rec (fst switchCase) discriminant) (\<lambda>matched.
     if matched then parseMatchedCase rec (switchCase # switchCases)
     else parseSwitchCases rec switchCases discriminant)"

definition SwitchStatement_parser :: "parser \<Rightarrow> node \<Rightarrow> (node option \<times> node list) list \<Rightarrow> val comp" where
  "SwitchStatement_parser rec discriminantNode cases =
     bind (rec (Some discriminantNode) Undefined) (\<lambda>discriminant.
     bind (parseSwitchCases rec cases discriminant) (\<lambda>result.
     bind (flow (FlowState_unset BREAK)) (\<lambda>u.
     return result)))"

definition ThrowStatement_parser :: "parser \<Rightarrow> node \<Rightarrow> val comp" where
  "ThrowStatement_parser rec argument = bind (rec (Some argument) Undefined) (\<lambda>error. throw error)"

subsection \<open>Exceptions\<close>

text \<open>
  The \<open>result\<close> object of \<open>TryStatement\<close> has at most the own properties \<open>value\<close> and
  \<open>error\<close>; \<open>Object.assign\<close> copies the own properties of its second argument over the first.
\<close>

record exceptionResult =
  rememberedValue :: "val option"
  rememberedError :: "val option"

definition emptyResult :: exceptionResult where
  "emptyResult = \<lparr>rememberedValue = None, rememberedError = None\<rparr>"

definition assign :: "exceptionResult \<Rightarrow> exceptionResult \<Rightarrow> exceptionResult" where
  "assign r r' =
     \<lparr>rememberedValue = (case rememberedValue r' of Some v \<Rightarrow> Some v | None \<Rightarrow> rememberedValue r),
      rememberedError = (case rememberedError r' of Some e \<Rightarrow> Some e | None \<Rightarrow> rememberedError r)\<rparr>"

definition getExceptionBlockResult :: "val \<Rightarrow> exceptionResult comp" where
  "getExceptionBlockResult v =
     bind (gets (\<lambda>s. isReturnState (flowState s))) (\<lambda>returned.
     if returned
     then bind (flow (FlowState_unset RETURN)) (\<lambda>u. return (emptyResult\<lparr>rememberedValue := Some v\<rparr>))
     else return emptyResult)"

definition handleExceptionBlock :: "parser \<Rightarrow> node option \<Rightarrow> exceptionResult comp" where
  "handleExceptionBlock rec block = bind (rec block Undefined) getExceptionBlockResult"

definition setCatchError :: "node \<Rightarrow> val \<Rightarrow> EsprimaParser \<Rightarrow> EsprimaParser" where
  "setCatchError param error s = setVariables (getNameFromPattern param) error s"

definition parseCatchClause :: "parser \<Rightarrow> node \<times> node \<Rightarrow> val \<Rightarrow> exceptionResult comp" where
  "parseCatchClause rec catchClause error =
     bind (modify (setCatchError (fst catchClause) error)) (\<lambda>u.
     handleExceptionBlock rec (Some (snd catchClause)))"

definition handleCatchClause :: "parser \<Rightarrow> (node \<times> node) option \<Rightarrow> val \<Rightarrow> exceptionResult comp" where
  "handleCatchClause rec catchClause error =
     (case catchClause of
        Some c \<Rightarrow>
          tryCatch (parseCatchClause rec c error)
            (\<lambda>e. return (emptyResult\<lparr>rememberedError := Some e\<rparr>))
      | None \<Rightarrow> return (emptyResult\<lparr>rememberedError := Some error\<rparr>))"

definition handleExceptionResult :: "exceptionResult \<Rightarrow> val comp" where
  "handleExceptionResult result =
     (case rememberedValue result of
        Some v \<Rightarrow> bind (flow (FlowState_set RETURN)) (\<lambda>u. return v)
      | None \<Rightarrow>
          (case rememberedError result of
             Some e \<Rightarrow> throw e
           | None \<Rightarrow> return Undefined))"

text \<open>
  \<open>try { block } catch (e) { handler } finally { finalizer }\<close> around the three
  \<open>Object.assign\<close>s: the finalizer runs after the block or the catch clause, whether they
  returned or raised; what it raises replaces what was raised before.
\<close>

definition TryStatement_parser :: "parser \<Rightarrow> node \<Rightarrow> (node \<times> node) option \<Rightarrow> node option \<Rightarrow> val comp" where
  "TryStatement_parser rec block handler finalizer s =
     (case tryCatch
             (bind (handleExceptionBlock rec (Some block)) (\<lambda>r. return (assign emptyResult r)))
             (\<lambda>e. bind (handleCatchClause rec handler e) (\<lambda>r. return (assign emptyResult r))) s of
        (OutOfFuel, s') \<Rightarrow> (OutOfFuel, s')
      | (Normal result, s') \<Rightarrow>
          bind (handleExceptionBlock rec finalizer) (\<lambda>r. handleExceptionResult (assign result r)) s'
      | (Throw e, s') \<Rightarrow>
          bind (handleExceptionBlock rec finalizer) (\<lambda>r. throw e) s')"

subsection \<open>Loops\<close>

definition isLoopStateNeededToUnset :: "val \<Rightarrow> EsprimaParser \<Rightarrow> bool" where
  "isLoopStateNeededToUnset l s = (isNullLabel (flowState s) \<or> isLabelMatched l (flowState s))"

definition handleLoopBreakState :: "val \<Rightarrow> bool comp" where
  "handleLoopBreakState l =
     bind (gets (isLoopStateNeededToUnset l)) (\<lambda>needed.
     bind (if needed then bind (flow unsetBreak) (\<lambda>u. flow unsetLabel) else return ()) (\<lambda>u.
     return True))"

definition handleLoopContinueState :: "val \<Rightarrow> bool comp" where
  "handleLoopContinueState l =
     bind (gets (isLoopStateNeededToUnset l)) (\<lambda>needed.
     if needed
     then bind (flow unsetContinue) (\<lambda>u. bind (flow unsetLabel) (\<lambda>u. return False))
     else return True)"

definition isLoopNeededToBreak :: "val \<Rightarrow> bool comp" where
  "isLoopNeededToBreak l =
     bind (gets (\<lambda>s. isReturnState (flowState s))) (\<lambda>returned.
     if returned then return True
     else bind (gets (\<lambda>s. isBreakState (flowState s))) (\<lambda>broken.
     if broken then handleLoopBreakState l
     else bind (gets (\<lambda>s. isContinueState (flowState s))) (\<lambda>continued.
     if continued then handleLoopContinueState l
     else return False)))"

text \<open>
  The \<open>while\<close> loop of \<open>WhileStatement\<close>, from the result so far; the fuel bounds the
  number of iterations.
\<close>

primrec whileLoop :: "nat \<Rightarrow> parser \<Rightarrow> node \<Rightarrow> node \<Rightarrow> val \<Rightarrow> val \<Rightarrow> val comp" where
  "whileLoop 0 rec test b l result = outOfFuel"
| "whileLoop (Suc fuel) rec test b l result =
     bind (rec (Some test) Undefined) (\<lambda>t.
     if toBoolean t
     then bind (rec (Some b) Undefined) (\<lambda>result'.
          bind (isLoopNeededToBreak l) (\<lambda>break.
          if break then return result' else whileLoop fuel rec test b l result'))
     else return result)"

definition WhileStatement_parser :: "nat \<Rightarrow> parser \<Rightarrow> node \<Rightarrow> node \<Rightarrow> val \<Rightarrow> val comp" where
  "WhileStatement_parser fuel rec test b l = whileLoop fuel rec test b l Undefined"

text \<open>
  \<open>this.WhileStatement(doWhileStatement)\<close> is called with the statement alone: its second
  parameter takes its default \<open>{}\<close>, whose \<open>label\<close> is undefined.
\<close>

definition DoWhileStatement_parser :: "nat \<Rightarrow> parser \<Rightarrow> node \<Rightarrow> node \<Rightarrow> val \<Rightarrow> val comp" where
  "DoWhileStatement_parser fuel rec b test l =
     bind (rec (Some b) Undefined) (\<lambda>result.
     bind (isLoopNeededToBreak l) (\<lambda>break.
     if \<not> break then WhileStatement_parser fuel rec test b Undefined
     else return result))"

primrec forLoop :: "nat \<Rightarrow> parser \<Rightarrow> node option \<Rightarrow> node option \<Rightarrow> node \<Rightarrow> val \<Rightarrow> val \<Rightarrow> val comp" where
  "forLoop 0 rec test update b l result = outOfFuel"
| "forLoop (Suc fuel) rec test update b l result =
     bind (rec test Undefined) (\<lambda>t.
     if toBoolean t
     then bind (rec (Some b) Undefined) (\<lambda>result'.
          bind (isLoopNeededToBreak l) (\<lambda>break.
          if break then return result'
          else bind (rec update Undefined) (\<lambda>u. forLoop fuel rec test update b l result')))
     else return result)"

definition ForStatement_parser :: "nat \<Rightarrow> parser \<Rightarrow> node option \<Rightarrow> node option \<Rightarrow> node option \<Rightarrow> node \<Rightarrow> val \<Rightarrow> val comp" where
  "ForStatement_parser fuel rec init test update b l =
     bind (rec init Undefined) (\<lambda>i. forLoop fuel rec test update b l Undefined)"

definition parseIterator :: "parser \<Rightarrow> node \<Rightarrow> val comp" where
  "parseIterator rec n =
     (case n of
        VariableDeclaration kind declarations \<Rightarrow>
          bind (rec (Some n) Undefined) (\<lambda>u.
          return (case getNameFromVariableDeclaration declarations of [] \<Rightarrow> Undefined | name # names \<Rightarrow> name))
      | _ \<Rightarrow> return (getNameFromPattern n))"

primrec forInLoop :: "parser \<Rightarrow> val \<Rightarrow> node \<Rightarrow> val \<Rightarrow> val list \<Rightarrow> val \<Rightarrow> val comp" where
  "forInLoop rec left b l [] result = return result"
| "forInLoop rec left b l (key # keys) result =
     bind (modify (updateVariables left key)) (\<lambda>u.
     bind (rec (Some b) Undefined) (\<lambda>result'.
     bind (isLoopNeededToBreak l) (\<lambda>break.
     if break then return result' else forInLoop rec left b l keys result')))"

definition ForInStatement_parser :: "parser \<Rightarrow> node \<Rightarrow> node \<Rightarrow> node \<Rightarrow> val \<Rightarrow> val comp" where
  "ForInStatement_parser rec leftNode rightNode b l =
     bind (parseIterator rec leftNode) (\<lambda>left.
     bind (rec (Some rightNode) Undefined) (\<lambda>right.
     bind (gets (\<lambda>s. enumerableKeys (heap s) right)) (\<lambda>keys.
     forInLoop rec left b l keys Undefined)))"

section \<open>Declarations and the function protocol\<close>

definition getEnvironment :: "'a environment_scheme \<Rightarrow> environment" where
  "getEnvironment context = \<lparr>scriptUrl = scriptUrl context, closureStack = getClone (closureStack context)\<rparr>"

definition setEnvironment :: "'a environment_scheme \<Rightarrow> environment \<Rightarrow> 'a environment_scheme" where
  "setEnvironment context env = context\<lparr>scriptUrl := scriptUrl env, closureStack := closureStack env\<rparr>"

definition parseFunctionParams :: "node list \<Rightarrow> val list" where
  "parseFunctionParams ps = map getNameFromPattern ps"

definition parseFunctionExpression :: "node list \<Rightarrow> node \<Rightarrow> EsprimaParser \<Rightarrow> functionAgentData" where
  "parseFunctionExpression ps b s =
     \<lparr>scriptUrl = scriptUrl (getEnvironment s),
      closureStack = closureStack (getEnvironment s),
      body = b,
      params = parseFunctionParams ps,
      hoistings = searchHoistings [Some b]\<rparr>"

text \<open>
  \<open>wrapWithFunction\<close> makes a function of the host language around the data; the model
  stores the data in the table of function agents and the function value is its index.
  \<open>arity\<close> only sets the \<open>length\<close> of the function and is left out.
\<close>

definition wrapWithFunction :: "functionAgentData \<Rightarrow> val comp" where
  "wrapWithFunction functionAgentData s =
     (Normal (Fun (length (functionAgents s))),
      s\<lparr>functionAgents := functionAgents s @ [functionAgentData]\<rparr>)"

definition createFunctionAgent :: "node list \<Rightarrow> node \<Rightarrow> val comp" where
  "createFunctionAgent ps b =
     bind (gets (parseFunctionExpression ps b)) (\<lambda>functionAgentData.
     wrapWithFunction functionAgentData)"

definition FunctionDeclaration_parser :: "node \<Rightarrow> node list \<Rightarrow> node \<Rightarrow> val comp" where
  "FunctionDeclaration_parser i ps b =
     bind (createFunctionAgent ps b) (\<lambda>functionAgent.
     bind (modify (setVariables (getNameFromPattern i) functionAgent)) (\<lambda>u.
     return Undefined))"

text \<open>
  \<open>setFunctionExpressionTo\<close> writes into the data the function was wrapped around: the
  entry of the function in the table.
\<close>

definition setFunctionExpressionTo :: "node \<Rightarrow> val \<Rightarrow> EsprimaParser \<Rightarrow> EsprimaParser" where
  "setFunctionExpressionTo i functionAgent s =
     (case functionAgent of
        Fun k \<Rightarrow>
          (if k < length (functionAgents s)
           then s\<lparr>functionAgents := (functionAgents s)[k :=
                  (functionAgents s ! k)\<lparr>closureStack :=
                     ClosureStack_set (createClosure (closureStack (functionAgents s ! k)))
                       (getNameFromPattern i) functionAgent\<rparr>]\<rparr>
           else s)
      | _ \<Rightarrow> s)"

definition FunctionExpression_parser :: "node option \<Rightarrow> node list \<Rightarrow> node \<Rightarrow> val comp" where
  "FunctionExpression_parser i ps b =
     bind (gets (parseFunctionExpression ps b)) (\<lambda>functionAgentData.
     bind (wrapWithFunction functionAgentData) (\<lambda>functionArity.
     bind (case i of
             Some i' \<Rightarrow> modify (setFunctionExpressionTo i' functionArity)
           | None \<Rightarrow> return ()) (\<lambda>u.
     return functionArity)))"

definition setBuiltInArguments :: "val \<times> val \<Rightarrow> EsprimaParser \<Rightarrow> EsprimaParser" where
  "setBuiltInArguments builtInArguments s =
     setVariables (Str ''arguments'') (snd builtInArguments)
       (setVariables (Str ''this'')
          (if toBoolean (fst builtInArguments) then fst builtInArguments else hostContext s) s)"

definition setCalledArguments :: "val list \<Rightarrow> val list \<Rightarrow> EsprimaParser \<Rightarrow> EsprimaParser" where
  "setCalledArguments ps values s =
     foldl (\<lambda>s' index. setVariables (ps ! index)
                         (if index < length values then values ! index else Undefined) s')
       s [0 ..< length ps]"

definition parseFunctionAgentData :: "parser \<Rightarrow> functionAgentData \<Rightarrow> val \<times> val \<Rightarrow> val list \<Rightarrow> val comp" where
  "parseFunctionAgentData rec functionAgentData builtInArguments calledArguments =
     bind (gets getEnvironment) (\<lambda>envGlobal.
     bind (return (getEnvironment functionAgentData)) (\<lambda>envFunction.
     bind (modify (\<lambda>s. setEnvironment s envFunction)) (\<lambda>u.
     bind (modify (\<lambda>s. s\<lparr>closureStack := createClosure (closureStack s)\<rparr>)) (\<lambda>u.
     bind (modify (setHoistings (hoistings functionAgentData))) (\<lambda>u.
     bind (modify (setBuiltInArguments builtInArguments)) (\<lambda>u.
     bind (modify (setCalledArguments (params functionAgentData) calledArguments)) (\<lambda>u.
     bind (tryFinally (rec (Some (body functionAgentData)) Undefined)
                      (modify (\<lambda>s. setEnvironment s envGlobal))) (\<lambda>result.
     bind (flow (FlowState_unset RETURN)) (\<lambda>u.
     return result)))))))))"

text \<open>
  Calling the function that \<open>wrapWithFunction\<close> made, with the receiver and the arguments
  the host passes: its \<open>arguments\<close> object is allocated and \<open>parseFunctionAgentData\<close> runs.
\<close>

definition callFunctionAgent :: "parser \<Rightarrow> nat \<Rightarrow> val \<Rightarrow> val list \<Rightarrow> val comp" where
  "callFunctionAgent rec k receiver calledArguments =
     bind (gets functionAgents) (\<lambda>fs.
     if k < length fs
     then bind (allocate ArgumentsObject (arrayProps calledArguments)) (\<lambda>arguments.
          parseFunctionAgentData rec (fs ! k) (receiver, arguments) calledArguments)
     else throw typeError)"

text \<open>\<open>f.apply(receiver, arguments)\<close> and \<open>new f(...arguments)\<close> of the host language.\<close>

definition liftHeap :: "(obj list \<Rightarrow> val outcome \<times> obj list) \<Rightarrow> val comp" where
  "liftHeap f s = (case f (heap s) of (out, h) \<Rightarrow> (out, s\<lparr>heap := h\<rparr>))"

definition applyFunction :: "host \<Rightarrow> parser \<Rightarrow> val \<Rightarrow> val \<Rightarrow> val list \<Rightarrow> val comp" where
  "applyFunction H rec f receiver calledArguments =
     (case f of
        Fun k \<Rightarrow> callFunctionAgent rec k receiver calledArguments
      | Native n \<Rightarrow> liftHeap (callNative H n receiver calledArguments)
      | _ \<Rightarrow> throw typeError)"

definition constructFunction :: "host \<Rightarrow> parser \<Rightarrow> val \<Rightarrow> val list \<Rightarrow> val comp" where
  "constructFunction H rec f calledArguments =
     (case f of
        Fun k \<Rightarrow>
          bind (allocate PlainObject []) (\<lambda>receiver.
          bind (callFunctionAgent rec k receiver calledArguments) (\<lambda>result.
          return (case result of Obj r \<Rightarrow> result | Fun j \<Rightarrow> result | Native n \<Rightarrow> result
                  | HostError m \<Rightarrow> result | _ \<Rightarrow> receiver)))
      | Native n \<Rightarrow> liftHeap (constructNative H n calledArguments)
      | _ \<Rightarrow> throw typeError)"

definition isVariableNeededToSet :: "string \<Rightarrow> node option \<Rightarrow> bool" where
  "isVariableNeededToSet kind init = (\<not> (kind = ''var'' \<and> init = None))"

definition parseVariableDeclarator :: "parser \<Rightarrow> node \<times> node option \<Rightarrow> unit comp" where
  "parseVariableDeclarator rec variableDeclarator =
     bind (rec (snd variableDeclarator) Undefined) (\<lambda>values.
     modify (setVariables (getNameFromPattern (fst variableDeclarator)) values))"

definition VariableDeclarator_parser :: "parser \<Rightarrow> node \<times> node option \<Rightarrow> string \<Rightarrow> unit comp" where
  "VariableDeclarator_parser rec variableDeclarator kind =
     (if isVariableNeededToSet kind (snd variableDeclarator)
      then parseVariableDeclarator rec variableDeclarator
      else return ())"

definition VariableDeclaration_parser :: "parser \<Rightarrow> string \<Rightarrow> (node \<times> node option) list \<Rightarrow> val comp" where
  "VariableDeclaration_parser rec kind declarations =
     bind (forEachM (\<lambda>variableDeclarator. VariableDeclarator_parser rec variableDeclarator kind) declarations)
       (\<lambda>u. return Undefined)"

section \<open>The checker hook\<close>

definition isStyle :: "EsprimaParser \<Rightarrow> val \<Rightarrow> bool" where
  "isStyle s object = instanceOf (heap s) object CSSStyleDeclaration"

definition isDOMTokenList :: "EsprimaParser \<Rightarrow> val \<Rightarrow> bool" where
  "isDOMTokenList s object = instanceOf (heap s) object DOMTokenList"

definition isStyleOrDOMTokenList :: "EsprimaParser \<Rightarrow> val \<Rightarrow> bool" where
  "isStyleOrDOMTokenList s object = (isStyle s object \<or> isDOMTokenList s object)"

definition hasNoParent :: "EsprimaParser \<Rightarrow> val \<Rightarrow> bool" where
  "hasNoParent s object =
     ((case object of Obj r \<Rightarrow> True | _ \<Rightarrow> False) \<and> \<not> hasOwnProperty (heap s) object ''parent'')"

definition isValidStyleOrDOMTokenList :: "EsprimaParser \<Rightarrow> val \<Rightarrow> bool" where
  "isValidStyleOrDOMTokenList s object = (hasNoParent s object \<and> isStyleOrDOMTokenList s object)"

definition isAttr :: "EsprimaParser \<Rightarrow> val \<Rightarrow> bool" where
  "isAttr s object = instanceOf (heap s) object Attr"

definition ownProperty :: "EsprimaParser \<Rightarrow> val \<Rightarrow> string \<Rightarrow> val" where
  "ownProperty s object k =
     (case object of
        Obj r \<Rightarrow> (case map_of (props (heapGet (heap s) r)) k of Some v \<Rightarrow> v | None \<Rightarrow> Undefined)
      | _ \<Rightarrow> Undefined)"

definition isJquery :: "EsprimaParser \<Rightarrow> val \<Rightarrow> bool" where
  "isJquery s object =
     (toBoolean (ownProperty s (hostContext s) ''jQuery'') \<and> instanceOf (heap s) object JQuery)"

definition getTargetObject :: "EsprimaParser \<Rightarrow> val \<Rightarrow> status \<Rightarrow> val" where
  "getTargetObject s c status =
     (case snd status of
        Some target \<Rightarrow> target
      | None \<Rightarrow>
          if isStyleOrDOMTokenList s c then ownProperty s c ''parent''
          else if isAttr s c then ownProperty s c ''ownerElement''
          else c)"

definition getTargetElements :: "host \<Rightarrow> EsprimaParser \<Rightarrow> val \<Rightarrow> status \<Rightarrow> val list" where
  "getTargetElements H s c status =
     (let object = getTargetObject s c status
      in if isJquery s object then jqueryGet H (heap s) object
         else (case object of
                 Obj r \<Rightarrow> if instanceOf (heap s) object ArrayObject then arrayElements (heap s) r
                          else [object]
               | _ \<Rightarrow> [object]))"

definition addInfoToCollection :: "host \<Rightarrow> exp \<Rightarrow> status \<Rightarrow> EsprimaParser \<Rightarrow> EsprimaParser" where
  "addInfoToCollection H e status s =
     s\<lparr>collection := addInfoToElements (getTargetElements H s (caller e) status) (fst status) (info e)
                        (collection s)\<rparr>"

definition tryToSetCheckFlag :: "host \<Rightarrow> exp \<Rightarrow> status option \<Rightarrow> bool comp" where
  "tryToSetCheckFlag H e status =
     (case status of
        Some st \<Rightarrow>
          bind (modify (\<lambda>s. s\<lparr>checkFlag := True\<rparr>)) (\<lambda>u.
          bind (modify (addInfoToCollection H e st)) (\<lambda>u.
          return True))
      | None \<Rightarrow> return False)"

definition setCheckFlag :: "host \<Rightarrow> exp \<Rightarrow> bool comp" where
  "setCheckFlag H e =
     bind (gets checkFlag) (\<lambda>flag.
     if \<not> flag \<and> toBoolean (caller e)
     then bind (gets (\<lambda>s. dispatch H (heap s) (hostContext s) (caller e) (callee e))) (\<lambda>status.
          tryToSetCheckFlag H e status)
     else return False)"

definition resetCheckFlag :: "bool \<Rightarrow> EsprimaParser \<Rightarrow> EsprimaParser" where
  "resetCheckFlag success s = (if success then s\<lparr>checkFlag := False\<rparr> else s)"

section \<open>Expressions\<close>

definition Identifier_parser :: "string \<Rightarrow> val comp" where
  "Identifier_parser name =
     (if name = ''null'' then return Null
      else if name = ''undefined'' then return Undefined
      else gets (\<lambda>s. ClosureStack_get (closureStack s) (Str name)))"

definition Literal_parser :: "val \<Rightarrow> (string \<times> string) option \<Rightarrow> val comp" where
  "Literal_parser v regex =
     (case regex of
        Some r \<Rightarrow> allocate RegExpObject [(''source'', Str (fst r)), (''flags'', Str (snd r))]
      | None \<Rightarrow> return v)"

definition ThisExpression_parser :: "val comp" where
  "ThisExpression_parser = gets (\<lambda>s. ClosureStack_get (closureStack s) (Str ''this''))"

definition getPropertyKey :: "parser \<Rightarrow> node \<Rightarrow> bool \<Rightarrow> val comp" where
  "getPropertyKey rec key computed =
     (if computed then rec (Some key) Undefined
      else return (case key of
                     Identifier name \<Rightarrow> if name \<noteq> [] then Str name else Undefined
                   | Literal v regex \<Rightarrow> v
                   | _ \<Rightarrow> Undefined))"

definition ArrayExpression_parser :: "parser \<Rightarrow> node option list \<Rightarrow> val comp" where
  "ArrayExpression_parser rec elements =
     bind (mapM (\<lambda>n. rec n Undefined) elements) (\<lambda>result.
     allocate ArrayObject
       (map (\<lambda>p. (digits (fst p), snd (snd p)))
          (filter (\<lambda>p. fst (snd p) \<noteq> None)
             (zip [0 ..< length elements] (zip elements result)))
        @ [(''length'', Num (int (length result)))]))"

definition Property_parser :: "parser \<Rightarrow> node \<Rightarrow> bool \<Rightarrow> node \<Rightarrow> val comp" where
  "Property_parser rec key computed v =
     bind (getPropertyKey rec key computed) (\<lambda>k.
     bind (rec (Some v) Undefined) (\<lambda>v'.
     allocate PlainObject [(''key'', k), (''value'', v')]))"

definition ObjectExpression_parser :: "parser \<Rightarrow> node list \<Rightarrow> val comp" where
  "ObjectExpression_parser rec properties =
     bind (allocate PlainObject []) (\<lambda>result.
     bind (forEachM (\<lambda>n.
             bind (rec (Some n) Undefined) (\<lambda>property.
             bind (memberRead property (Str ''key'')) (\<lambda>key.
             bind (memberRead property (Str ''value'')) (\<lambda>v.
             memberWrite result key v)))) properties) (\<lambda>u.
     return result))"

definition getPatternExp :: "node \<Rightarrow> exp" where
  "getPatternExp pattern = \<lparr>caller = Undefined, callee = Plain (getNameFromPattern pattern), info = None\<rparr>"

definition getMemberExp :: "parser \<Rightarrow> node \<Rightarrow> node \<Rightarrow> bool \<Rightarrow> exp comp" where
  "getMemberExp rec object property computed =
     bind (rec (Some object) Undefined) (\<lambda>c.
     bind (getPropertyKey rec property computed) (\<lambda>k.
     return \<lparr>caller = c, callee = Plain k, info = None\<rparr>))"

definition getRefExp :: "parser \<Rightarrow> node \<Rightarrow> exp comp" where
  "getRefExp rec expression =
     (case expression of
        MemberExpression object property computed \<Rightarrow> getMemberExp rec object property computed
      | _ \<Rightarrow> return (getPatternExp expression))"

text \<open>The \<open>delete\<close> entry that \<open>initUnaryOperators\<close> installs.\<close>

definition deleteOperator :: "exp \<Rightarrow> val comp" where
  "deleteOperator e =
     bind (gets hostContext) (\<lambda>context.
     memberDelete (if caller e = Undefined then context else caller e) (calleeKey (callee e)))"

definition UnaryExpression_parser :: "host \<Rightarrow> parser \<Rightarrow> string \<Rightarrow> node \<Rightarrow> val comp" where
  "UnaryExpression_parser H rec operator argument =
     (if operator = ''delete''
      then bind (getRefExp rec argument) deleteOperator
      else bind (rec (Some argument) Undefined) (\<lambda>v.
           case importedUnaryOperators H operator of
             Some operation \<Rightarrow> return (operation v)
           | None \<Rightarrow> throw typeError))"

definition handleAssign :: "exp \<Rightarrow> val \<Rightarrow> unit comp" where
  "handleAssign e v =
     (if caller e = Undefined then modify (updateVariables (calleeKey (callee e)) v)
      else memberWrite (caller e) (calleeKey (callee e)) v)"

text \<open>The \<open>=\<close> entry that \<open>initAssignmentOperators\<close> installs.\<close>

definition assignOperator :: "host \<Rightarrow> exp \<Rightarrow> val \<Rightarrow> val comp" where
  "assignOperator H e v =
     bind (setCheckFlag H e) (\<lambda>success.
     bind (handleAssign e v) (\<lambda>u.
     bind (modify (resetCheckFlag success)) (\<lambda>u.
     return v)))"

definition setUpdateValue :: "host \<Rightarrow> parser \<Rightarrow> node \<Rightarrow> val \<Rightarrow> val comp" where
  "setUpdateValue H rec argument update =
     bind (getRefExp rec argument) (\<lambda>e. assignOperator H e update)"

definition UpdateExpression_parser :: "host \<Rightarrow> parser \<Rightarrow> string \<Rightarrow> bool \<Rightarrow> node \<Rightarrow> val comp" where
  "UpdateExpression_parser H rec operator prefix argument =
     bind (rec (Some argument) Undefined) (\<lambda>origin.
     case updateOperators H operator of
       None \<Rightarrow> throw typeError
     | Some operation \<Rightarrow>
         bind (return (operation origin)) (\<lambda>update.
         bind (setUpdateValue H rec argument update) (\<lambda>u.
         return (if prefix then update else origin))))"

definition BinaryExpression_parser :: "host \<Rightarrow> parser \<Rightarrow> string \<Rightarrow> node \<Rightarrow> node \<Rightarrow> val comp" where
  "BinaryExpression_parser H rec operator leftNode rightNode =
     bind (rec (Some leftNode) Undefined) (\<lambda>left.
     bind (rec (Some rightNode) Undefined) (\<lambda>right.
     case binaryOperators H operator of
       Some operation \<Rightarrow> return (operation left right)
     | None \<Rightarrow> throw typeError))"

text \<open>\<open>operator.replace(/\=$/, '')\<close>: one trailing \<open>=\<close> is removed.\<close>

definition transAssignmentOperator :: "string \<Rightarrow> string" where
  "transAssignmentOperator operator =
     (if operator \<noteq> [] \<and> last operator = CHR ''='' then butlast operator else operator)"

definition getAssignValue :: "host \<Rightarrow> parser \<Rightarrow> string \<Rightarrow> node \<Rightarrow> node \<Rightarrow> val comp" where
  "getAssignValue H rec operator leftNode rightNode =
     (if transAssignmentOperator operator \<noteq> []
      then BinaryExpression_parser H rec (transAssignmentOperator operator) leftNode rightNode
      else rec (Some rightNode) Undefined)"

definition getExpInfo :: "host \<Rightarrow> nat \<Rightarrow> node \<Rightarrow> EsprimaParser \<Rightarrow> info" where
  "getExpInfo H loc expression s = (loc, generate H expression, scriptUrl s)"

definition AssignmentExpression_parser :: "host \<Rightarrow> parser \<Rightarrow> nat \<Rightarrow> string \<Rightarrow> node \<Rightarrow> node \<Rightarrow> val comp" where
  "AssignmentExpression_parser H rec loc operator leftNode rightNode =
     bind (getRefExp rec leftNode) (\<lambda>e.
     bind (getAssignValue H rec operator leftNode rightNode) (\<lambda>v.
     bind (gets (getExpInfo H loc (AssignmentExpression loc operator leftNode rightNode))) (\<lambda>i.
     assignOperator H (e\<lparr>info := Some i\<rparr>) v)))"

definition LogicalExpression_parser :: "parser \<Rightarrow> string \<Rightarrow> node \<Rightarrow> node \<Rightarrow> val comp" where
  "LogicalExpression_parser rec operator leftNode rightNode =
     (if operator = ''||''
      then bind (rec (Some leftNode) Undefined) (\<lambda>left.
           if toBoolean left then return left else rec (Some rightNode) Undefined)
      else if operator = ''&&''
      then bind (rec (Some leftNode) Undefined) (\<lambda>left.
           if toBoolean left then rec (Some rightNode) Undefined else return left)
      else throw typeError)"

definition getCalledMethod :: "val \<Rightarrow> val \<Rightarrow> val comp" where
  "getCalledMethod c method = (if c = Undefined then return method else memberRead c method)"

definition executeCall :: "host \<Rightarrow> parser \<Rightarrow> val \<Rightarrow> val \<Rightarrow> val list option \<Rightarrow> val comp" where
  "executeCall H rec c method arguments =
     bind (getCalledMethod c method) (\<lambda>calledMethod.
     applyFunction H rec calledMethod c (case arguments of Some a \<Rightarrow> a | None \<Rightarrow> []))"

definition executeMember :: "val \<Rightarrow> val \<Rightarrow> val comp" where
  "executeMember c k = memberRead c k"

definition executeExp :: "host \<Rightarrow> parser \<Rightarrow> exp \<Rightarrow> val comp" where
  "executeExp H rec e =
     (case callee e of
        Callee method arguments \<Rightarrow> executeCall H rec (caller e) method arguments
      | Plain k \<Rightarrow> executeMember (caller e) k)"

definition execute :: "host \<Rightarrow> parser \<Rightarrow> exp \<Rightarrow> val comp" where
  "execute H rec e = executeExp H rec e"

definition parseMemberExp :: "host \<Rightarrow> parser \<Rightarrow> exp \<Rightarrow> val comp" where
  "parseMemberExp H rec e =
     bind (execute H rec e) (\<lambda>result.
     bind (gets (\<lambda>s. isValidStyleOrDOMTokenList s result)) (\<lambda>valid.
     bind (if valid then memberWrite result (Str ''parent'') (caller e) else return ()) (\<lambda>u.
     return result)))"

definition MemberExpression_parser :: "host \<Rightarrow> parser \<Rightarrow> node \<Rightarrow> node \<Rightarrow> bool \<Rightarrow> val comp" where
  "MemberExpression_parser H rec object property computed =
     bind (getMemberExp rec object property computed) (parseMemberExp H rec)"

definition ConditionalExpression_parser :: "parser \<Rightarrow> node \<Rightarrow> node \<Rightarrow> node \<Rightarrow> val comp" where
  "ConditionalExpression_parser rec testNode consequent alternate =
     bind (rec (Some testNode) Undefined) (\<lambda>test.
     if toBoolean test then rec (Some consequent) Undefined else rec (Some alternate) Undefined)"

definition getOtherExp :: "parser \<Rightarrow> node \<Rightarrow> exp comp" where
  "getOtherExp rec expression =
     bind (rec (Some expression) Undefined) (\<lambda>v.
     return \<lparr>caller = Undefined, callee = Plain v, info = None\<rparr>)"

definition getCalleeExp :: "parser \<Rightarrow> node \<Rightarrow> exp comp" where
  "getCalleeExp rec calleeNode =
     (case calleeNode of
        MemberExpression object property computed \<Rightarrow> getMemberExp rec object property computed
      | _ \<Rightarrow> getOtherExp rec calleeNode)"

definition parseCallee :: "parser \<Rightarrow> node \<Rightarrow> exp comp" where
  "parseCallee rec calleeNode =
     bind (getCalleeExp rec calleeNode) (\<lambda>e.
     return \<lparr>caller = caller e, callee = createCallee (calleeKey (callee e)), info = None\<rparr>)"

definition parseArguments :: "parser \<Rightarrow> node list \<Rightarrow> val list comp" where
  "parseArguments rec calledArguments = mapM (\<lambda>argument. rec (Some argument) Undefined) calledArguments"

definition getCallExp :: "parser \<Rightarrow> node \<Rightarrow> node list \<Rightarrow> exp comp" where
  "getCallExp rec calleeNode argumentNodes =
     bind (parseCallee rec calleeNode) (\<lambda>e.
     bind (parseArguments rec argumentNodes) (\<lambda>calleeArguments.
     return (e\<lparr>callee := addArguments calleeArguments (callee e)\<rparr>)))"

definition parseCallExp :: "host \<Rightarrow> parser \<Rightarrow> exp \<Rightarrow> val comp" where
  "parseCallExp H rec e =
     bind (setCheckFlag H e) (\<lambda>success.
     bind (execute H rec e) (\<lambda>result.
     bind (modify (resetCheckFlag success)) (\<lambda>u.
     return result)))"

definition CallExpression_parser :: "host \<Rightarrow> parser \<Rightarrow> nat \<Rightarrow> node \<Rightarrow> node list \<Rightarrow> val comp" where
  "CallExpression_parser H rec loc calleeNode argumentNodes =
     bind (getCallExp rec calleeNode argumentNodes) (\<lambda>e.
     bind (gets (getExpInfo H loc (CallExpression loc calleeNode argumentNodes))) (\<lambda>i.
     parseCallExp H rec (e\<lparr>info := Some i\<rparr>)))"

definition NewExpression_parser :: "host \<Rightarrow> parser \<Rightarrow> node \<Rightarrow> node list \<Rightarrow> val comp" where
  "NewExpression_parser H rec calleeNode argumentNodes =
     bind (rec (Some calleeNode) Undefined) (\<lambda>calledConstructor.
     bind (parseArguments rec argumentNodes) (\<lambda>calledArguments.
     constructFunction H rec calledConstructor calledArguments))"

primrec sequenceLoop :: "parser \<Rightarrow> node list \<Rightarrow> val \<Rightarrow> val comp" where
  "sequenceLoop rec [] result = return result"
| "sequenceLoop rec (expression # expressions) result =
     bind (rec (Some expression) Undefined) (\<lambda>result'. sequenceLoop rec expressions result')"

definition SequenceExpression_parser :: "parser \<Rightarrow> node list \<Rightarrow> val comp" where
  "SequenceExpression_parser rec expressions = sequenceLoop rec expressions Undefined"

section \<open>The dispatcher\<close>

text \<open>
  \<open>this[node.type](node, options)\<close>: the method named by the kind of the node. The only
  option is the label; the loops read it, the other methods ignore it.
\<close>

definition parseByType :: "host \<Rightarrow> nat \<Rightarrow> parser \<Rightarrow> node \<Rightarrow> val \<Rightarrow> val comp" where
  "parseByType H fuel rec n l =
     (case n of
        Program b \<Rightarrow> Program_parser rec b
      | ExpressionStatement e \<Rightarrow> bind (rec (Some e) Undefined) (\<lambda>r. return Undefined)
      | BlockStatement b \<Rightarrow> parseStatements rec b
      | EmptyStatement \<Rightarrow> return Undefined
      | ReturnStatement argument \<Rightarrow> ReturnStatement_parser rec argument
      | LabeledStatement labelNode b \<Rightarrow> rec (Some b) (getNameFromPattern labelNode)
      | BreakStatement labelNode \<Rightarrow> BreakStatement_parser labelNode
      | ContinueStatement labelNode \<Rightarrow> ContinueStatement_parser labelNode
      | IfStatement test consequent alternate \<Rightarrow> IfStatement_parser rec test consequent alternate
      | SwitchStatement discriminant cases \<Rightarrow> SwitchStatement_parser rec discriminant cases
      | SwitchCase test consequent \<Rightarrow> parseStatements rec consequent
      | ThrowStatement argument \<Rightarrow> ThrowStatement_parser rec argument
      | TryStatement block handler finalizer \<Rightarrow> TryStatement_parser rec block handler finalizer
      | WhileStatement test b \<Rightarrow> WhileStatement_parser fuel rec test b l
      | DoWhileStatement b test \<Rightarrow> DoWhileStatement_parser fuel rec b test l
      | ForStatement init test update b \<Rightarrow> ForStatement_parser fuel rec init test update b l
      | ForInStatement left right b \<Rightarrow> ForInStatement_parser rec left right b l
      | FunctionDeclaration i ps b \<Rightarrow> FunctionDeclaration_parser i ps b
      | VariableDeclaration kind declarations \<Rightarrow> VariableDeclaration_parser rec kind declarations
      | ThisExpression \<Rightarrow> ThisExpression_parser
      | ArrayExpression elements \<Rightarrow> ArrayExpression_parser rec elements
      | ObjectExpression properties \<Rightarrow> ObjectExpression_parser rec properties
      | Property key computed v \<Rightarrow> Property_parser rec key computed v
      | FunctionExpression i ps b \<Rightarrow> FunctionExpression_parser i ps b
      | UnaryExpression operator argument \<Rightarrow> UnaryExpression_parser H rec operator argument
      | UpdateExpression operator prefix argument \<Rightarrow> UpdateExpression_parser H rec operator prefix argument
      | BinaryExpression operator left right \<Rightarrow> BinaryExpression_parser H rec operator left right
      | AssignmentExpression loc operator left right \<Rightarrow> AssignmentExpression_parser H rec loc operator left right
      | LogicalExpression operator left right \<Rightarrow> LogicalExpression_parser rec operator left right
      | MemberExpression object property computed \<Rightarrow> MemberExpression_parser H rec object property computed
      | ConditionalExpression test consequent alternate \<Rightarrow> ConditionalExpression_parser rec test consequent alternate
      | CallExpression loc calleeNode arguments \<Rightarrow> CallExpression_parser H rec loc calleeNode arguments
      | NewExpression calleeNode arguments \<Rightarrow> NewExpression_parser H rec calleeNode arguments
      | SequenceExpression expressions \<Rightarrow> SequenceExpression_parser rec expressions
      | Identifier name \<Rightarrow> Identifier_parser name
      | Literal v regex \<Rightarrow> Literal_parser v regex)"

definition parseNode :: "host \<Rightarrow> nat \<Rightarrow> parser \<Rightarrow> node option \<Rightarrow> val \<Rightarrow> val comp" where
  "parseNode H fuel rec n l =
     (case n of
        Some n' \<Rightarrow>
          bind (parseByType H fuel rec n' l) (\<lambda>result.
          bind (modify (handleStatementLabelState l)) (\<lambda>u.
          return result))
      | None \<Rightarrow> return Undefined)"

text \<open>
  The recursion of \<open>parseNode\<close> through the methods it dispatches to, bounded by the fuel:
  every method is given the \<open>parseNode\<close> of one unit of fuel less for its children.
\<close>

primrec eval :: "host \<Rightarrow> nat \<Rightarrow> node option \<Rightarrow> val \<Rightarrow> val comp" where
  "eval H 0 = (\<lambda>n l. case n of None \<Rightarrow> return Undefined | Some n' \<Rightarrow> outOfFuel)"
| "eval H (Suc fuel) = parseNode H fuel (eval H fuel)"

definition setScriptUrl :: "val \<Rightarrow> EsprimaParser \<Rightarrow> EsprimaParser" where
  "setScriptUrl url s = s\<lparr>scriptUrl := url\<rparr>"

definition parseAst :: "host \<Rightarrow> nat \<Rightarrow> node \<Rightarrow> val \<Rightarrow> unit comp" where
  "parseAst H fuel root url =
     bind (modify (setScriptUrl url)) (\<lambda>u.
     bind (eval H fuel (Some root) Undefined) (\<lambda>r. return ()))"

text \<open>
  The constructor: \<open>context.this = context\<close> on the heap, then the fields. A context that is
  not an object cannot take the property (the assignment raises in the host language).
\<close>

definition constructor :: "obj list \<Rightarrow> val \<Rightarrow> EsprimaParser outcome" where
  "constructor h context =
     (case context of
        Obj r \<Rightarrow>
          (let h' = heapSetProp h r ''this'' context
           in Normal \<lparr>scriptUrl = Null,
                      closureStack = newClosureStack h' context,
                      hostContext = context,
                      checkFlag = False,
                      collection = [],
                      flowState = newFlowState,
                      heap = h',
                      functionAgents = []\<rparr>)
      | _ \<Rightarrow> Throw typeError)"

section \<open>A host for the examples\<close>

text \<open>
  Modelled from the spec: the operator tables (\<open>operators/binaryOperators\<close>,
  \<open>updateOperators\<close>, \<open>unaryOperators\<close>) and the checker dispatcher are not among the
  sources. The examples below run on a small host: the operators \<open>+\<close>, \<open>*\<close>, \<open><\<close>
  and \<open>===\<close> on numbers, \<open>++\<close>, \<open>!\<close>, a checker that reports every call and
  assignment on the object \<open>Obj 1\<close>, a native function \<open>fail\<close> that raises and a native
  function \<open>noop\<close> that returns undefined.
\<close>

definition exampleBinaryOperators :: "string \<Rightarrow> (val \<Rightarrow> val \<Rightarrow> val) option" where
  "exampleBinaryOperators operator =
     (if operator = ''+'' then Some (\<lambda>a b. case a of Num x \<Rightarrow> (case b of Num y \<Rightarrow> Num (x + y) | _ \<Rightarrow> Undefined) | _ \<Rightarrow> Undefined)
      else if operator = ''*'' then Some (\<lambda>a b. case a of Num x \<Rightarrow> (case b of Num y \<Rightarrow> Num (x * y) | _ \<Rightarrow> Undefined) | _ \<Rightarrow> Undefined)
      else if operator = ''<'' then Some (\<lambda>a b. case a of Num x \<Rightarrow> (case b of Num y \<Rightarrow> Bool (x < y) | _ \<Rightarrow> Bool False) | _ \<Rightarrow> Bool False)
      else if operator = ''==='' then Some (\<lambda>a b. Bool (strictEquals a b))
      else None)"

definition exampleUpdateOperators :: "string \<Rightarrow> (val \<Rightarrow> val) option" where
  "exampleUpdateOperators operator =
     (if operator = ''++'' then Some (\<lambda>a. case a of Num x \<Rightarrow> Num (x + 1) | _ \<Rightarrow> Undefined)
      else None)"

definition exampleUnaryOperators :: "string \<Rightarrow> (val \<Rightarrow> val) option" where
  "exampleUnaryOperators operator =
     (if operator = ''!'' then Some (\<lambda>a. Bool (\<not> toBoolean a)) else None)"

definition exampleDispatch :: "obj list \<Rightarrow> val \<Rightarrow> val \<Rightarrow> callee \<Rightarrow> status option" where
  "exampleDispatch h context c k = (if c = Obj 1 then Some (Str ''call'', None) else None)"

definition exampleCallNative :: "string \<Rightarrow> val \<Rightarrow> val list \<Rightarrow> obj list \<Rightarrow> val outcome \<times> obj list" where
  "exampleCallNative name receiver arguments h =
     (if name = ''fail'' then (Throw (Str ''failed''), h) else (Normal Undefined, h))"

definition exampleHost :: host where
  "exampleHost =
     \<lparr>binaryOperators = exampleBinaryOperators,
      updateOperators = exampleUpdateOperators,
      importedUnaryOperators = exampleUnaryOperators,
      dispatch = exampleDispatch,
      generate = (\<lambda>n. []),
      callNative = exampleCallNative,
      constructNative = (\<lambda>name arguments h. (Throw typeError, h)),
      jqueryGet = (\<lambda>h object. [])\<rparr>"

text \<open>
  The example context: the global object \<open>Obj 0\<close>, and on it the host object \<open>Obj 1\<close>
  under the name \<open>o\<close>, with a counter \<open>n\<close> and the methods \<open>fail\<close> and \<open>noop\<close>.
\<close>

definition exampleHeap :: "obj list" where
  "exampleHeap =
     [\<lparr>cls = PlainObject, props = [(''o'', Obj 1)]\<rparr>,
      \<lparr>cls = PlainObject, props = [(''n'', Num 0), (''fail'', Native ''fail''), (''noop'', Native ''noop'')]\<rparr>]"

definition exampleParser :: EsprimaParser where
  "exampleParser = (case constructor exampleHeap (Obj 0) of Normal s \<Rightarrow> s)"

text \<open>The programs of the examples.\<close>

definition forWithoutTestProgram :: node where
  "forWithoutTestProgram =
     Program [ForStatement None None None
       (BlockStatement
          [ExpressionStatement (AssignmentExpression 0 ''='' (Identifier ''x'') (Literal (Num 1) None)),
           BreakStatement None])]"

definition thisFunctionProgram :: node where
  "thisFunctionProgram =
     Program [VariableDeclaration ''var''
       [(Identifier ''f'',
         Some (FunctionExpression None [] (BlockStatement [ReturnStatement (Some ThisExpression)])))]]"

definition thisFunctionParser :: EsprimaParser where
  "thisFunctionParser = snd (parseAst exampleHost 20 thisFunctionProgram Null exampleParser)"

definition throwingCallProgram :: node where
  "throwingCallProgram =
     Program [TryStatement
       (BlockStatement [ExpressionStatement
          (CallExpression 0 (MemberExpression (Identifier ''o'') (Identifier ''fail'') False) [])])
       (Some (Identifier ''e'', BlockStatement []))
       None]"

definition labelledDoWhileProgram :: node where
  "labelledDoWhileProgram =
     Program
       [VariableDeclaration ''var'' [(Identifier ''i'', Some (Literal (Num 0) None))],
        LabeledStatement (Identifier ''L'')
          (DoWhileStatement
             (BlockStatement
                [ExpressionStatement (AssignmentExpression 0 ''='' (Identifier ''i'')
                   (BinaryExpression ''+'' (Identifier ''i'') (Literal (Num 1) None))),
                 IfStatement (BinaryExpression ''==='' (Identifier ''i'') (Literal (Num 2) None))
                   (ContinueStatement (Some (Identifier ''L''))) None])
             (BinaryExpression ''<'' (Identifier ''i'') (Literal (Num 3) None)))]"

definition countingObject :: node where
  "countingObject =
     SequenceExpression
       [UpdateExpression ''++'' False (MemberExpression (Identifier ''o'') (Identifier ''n'') False),
        Identifier ''o'']"

definition compoundMemberAssignment :: node where
  "compoundMemberAssignment =
     AssignmentExpression 0 ''+='' (MemberExpression countingObject (Identifier ''k'') False)
       (Literal (Num 10) None)"

definition returningTry :: "node \<times> node option" where
  "returningTry =
     (BlockStatement [ReturnStatement (Some (Literal (Num 1) None))],
      Some (BlockStatement [ReturnStatement (Some (Literal (Num 2) None))]))"

definition hoistingProgram :: "node list" where
  "hoistingProgram =
     [IfStatement (Identifier ''c'')
        (BlockStatement [VariableDeclaration ''var'' [(Identifier ''x'', Some (Literal (Num 1) None))]])
        None,
      FunctionDeclaration (Identifier ''g'') [] (BlockStatement [])]"

definition shadowingFunction :: node where
  "shadowingFunction =
     FunctionExpression None [Identifier ''x'']
       (BlockStatement
          [VariableDeclaration ''var'' [(Identifier ''x'', None), (Identifier ''y'', None)],
           ReturnStatement (Some (Identifier ''x''))])"

definition shadowingFunctionProgram :: node where
  "shadowingFunctionProgram =
     Program [VariableDeclaration ''var''
       [(Identifier ''r'', Some (CallExpression 0 shadowingFunction [Literal (Num 1) None]))]]"

definition shadowingFunctionData :: functionAgentData where
  "shadowingFunctionData =
     parseFunctionExpression [Identifier ''x'']
       (BlockStatement
          [VariableDeclaration ''var'' [(Identifier ''x'', None), (Identifier ''y'', None)],
           ReturnStatement (Some (Identifier ''x''))]) exampleParser"





section \<open>Notions the properties are stated with\<close>

text \<open>The current frame of a closure stack: the innermost one, where \<open>set\<close> defines.\<close>

definition currentFrame :: "ClosureStack \<Rightarrow> frame" where
  "currentFrame cs = (case cs of [] \<Rightarrow> [] | fr # rest \<Rightarrow> fr)"

text \<open>
  The names of section 4.4 of the specification, in its words: the name of a function
  declaration; every declared identifier of a \<open>var\<close> declaration; and the names of the
  named children of a block, an \<open>if\<close> (both branches), a \<open>switch\<close> (every case
  consequent), a \<open>try\<close> (block, handler body, finalizer), a \<open>for\<close> (init and body), a
  \<open>for-in\<close> (left and body), a \<open>while\<close> and a \<open>do-while\<close> (body).
\<close>

inductive specHoists :: "node \<Rightarrow> val \<Rightarrow> bool" where
  hoists_function: "specHoists (FunctionDeclaration i ps b) (getNameFromPattern i)"
| hoists_var: "d \<in> set declarations \<Longrightarrow> specHoists (VariableDeclaration ''var'' declarations) (getNameFromPattern (fst d))"
| hoists_block: "st \<in> set b \<Longrightarrow> specHoists st name \<Longrightarrow> specHoists (BlockStatement b) name"
| hoists_consequent: "specHoists c name \<Longrightarrow> specHoists (IfStatement t c a) name"
| hoists_alternate: "specHoists a name \<Longrightarrow> specHoists (IfStatement t c (Some a)) name"
| hoists_switch: "c \<in> set cases \<Longrightarrow> st \<in> set (snd c) \<Longrightarrow> specHoists st name \<Longrightarrow> specHoists (SwitchStatement d cases) name"
| hoists_try_block: "specHoists b name \<Longrightarrow> specHoists (TryStatement b h f) name"
| hoists_try_handler: "specHoists hb name \<Longrightarrow> specHoists (TryStatement b (Some (p, hb)) f) name"
| hoists_try_finalizer: "specHoists f name \<Longrightarrow> specHoists (TryStatement b h (Some f)) name"
| hoists_for_init: "specHoists i name \<Longrightarrow> specHoists (ForStatement (Some i) t u b) name"
| hoists_for_body: "specHoists b name \<Longrightarrow> specHoists (ForStatement i t u b) name"
| hoists_forin_left: "specHoists l name \<Longrightarrow> specHoists (ForInStatement l r b) name"
| hoists_forin_body: "specHoists b name \<Longrightarrow> specHoists (ForInStatement l r b) name"
| hoists_while: "specHoists b name \<Longrightarrow> specHoists (WhileStatement t b) name"
| hoists_dowhile: "specHoists b name \<Longrightarrow> specHoists (DoWhileStatement b t) name"

section \<open>The return signal\<close>









section \<open>Laws of the computations\<close>

lemma bind_return [simp]: "bind (return v) f = f v"
  by (rule ext) (simp add: bind_def return_def)

lemma bind_throw [simp]: "bind (throw e) f = throw e"
  by (rule ext) (simp add: bind_def throw_def)

lemma bind_outOfFuel [simp]: "bind outOfFuel f = outOfFuel"
  by (rule ext) (simp add: bind_def outOfFuel_def)

lemma bind_gets: "bind (gets g) f s = f (g s) s"
  by (simp add: bind_def gets_def)

lemma bind_modify: "bind (modify g) f s = f () (g s)"
  by (simp add: bind_def modify_def)

lemma bind_assoc: "bind (bind m f) g = bind m (\<lambda>x. bind (f x) g)"
  by (rule ext) (simp add: bind_def split: prod.splits outcome.splits)

lemma return_apply: "return v s = (Normal v, s)"
  by (simp add: return_def)

lemma throw_apply: "throw e s = (Throw e, s)"
  by (simp add: throw_def)

lemma outOfFuel_apply: "outOfFuel s = (OutOfFuel, s)"
  by (simp add: outOfFuel_def)

lemma gets_apply: "gets g s = (Normal (g s), s)"
  by (simp add: gets_def)

lemma modify_apply: "modify g s = (Normal (), g s)"
  by (simp add: modify_def)

lemmas comp_apply =
  return_apply throw_apply outOfFuel_apply gets_apply modify_apply bind_gets bind_modify

lemma bind_Normal: "m s = (Normal v, s') \<Longrightarrow> bind m f s = f v s'"
  by (simp add: bind_def)

lemma bind_Throw: "m s = (Throw e, s') \<Longrightarrow> bind m f s = (Throw e, s')"
  by (simp add: bind_def)

lemma bind_OutOfFuel: "m s = (OutOfFuel, s') \<Longrightarrow> bind m f s = (OutOfFuel, s')"
  by (simp add: bind_def)

lemma eval_None [simp]: "eval H fuel None l = return Undefined"
  by (cases fuel) (simp_all add: parseNode_def)


section \<open>The for statement without a test\<close>

lemma forLoop_absent_test: "forLoop (Suc fuel) (eval H k) None update b l result = return result"
  by simp

text \<open>
  With an absent test \<open>parseNode\<close> returns undefined for it, the loop condition is falsy
  at once and the body is never evaluated: the statement is its \<open>init\<close> alone.
\<close>

lemma ForStatement_absent_test:
  "eval H (Suc (Suc fuel)) (Some (ForStatement init None update b)) l s =
     (case eval H (Suc fuel) init Undefined s of
        (Normal i, s') \<Rightarrow> (Normal Undefined, handleStatementLabelState l s')
      | (Throw e, s') \<Rightarrow> (Throw e, s')
      | (OutOfFuel, s') \<Rightarrow> (OutOfFuel, s'))"
proof -
  have "eval H (Suc (Suc fuel)) (Some (ForStatement init None update b)) l s =
        parseNode H (Suc fuel) (eval H (Suc fuel)) (Some (ForStatement init None update b)) l s"
    by simp
  also have "\<dots> = (case eval H (Suc fuel) init Undefined s of
        (Normal i, s') \<Rightarrow> (Normal Undefined, handleStatementLabelState l s')
      | (Throw e, s') \<Rightarrow> (Throw e, s')
      | (OutOfFuel, s') \<Rightarrow> (OutOfFuel, s'))"
    unfolding parseNode_def parseByType_def ForStatement_parser_def
    by (simp add: forLoop_absent_test bind_def comp_apply split: prod.splits outcome.splits
        del: eval.simps(2) forLoop.simps)
  finally show ?thesis .
qed

text \<open>
  Claim C2 (an absent test of a \<open>for\<close> statement is treated as truthy, the body is entered):
  the code does not do this. The program \<open>for (;;) { x = 1; break }\<close> returns without
  having entered the body: \<open>x\<close> was never assigned and no break was ever signalled.
\<close>

theorem for_without_test_never_enters_body:
  "(case parseAst exampleHost 20 forWithoutTestProgram Null exampleParser of
      (out, s) \<Rightarrow> (out, ClosureStack_get (closureStack s) (Str ''x''), state (flowState s)))
   = (Normal (), Undefined, {})"
  by code_simp

section \<open>The constructor and \<open>this\<close> at top level\<close>



section \<open>The environment across a function call\<close>

lemma tryFinally_modify:
  "tryFinally m (modify g) s = (out, s') \<Longrightarrow> out \<noteq> OutOfFuel \<Longrightarrow> \<exists>s''. s' = g s''"
  by (auto simp: tryFinally_def comp_apply split: prod.splits outcome.splits)

lemma setEnvironment_get:
  "scriptUrl (setEnvironment s env) = scriptUrl env \<and> closureStack (setEnvironment s env) = closureStack env"
  by (simp add: setEnvironment_def)

lemma parseFunctionAgentData_environment:
  assumes "parseFunctionAgentData rec fad b cargs s = (out, s')" and "out \<noteq> OutOfFuel"
  shows "scriptUrl s' = scriptUrl s \<and> closureStack s' = closureStack s"
proof -
  let ?s1 = "setCalledArguments (params fad) cargs
               (setBuiltInArguments b
                 (setHoistings (hoistings fad)
                   ((setEnvironment s (getEnvironment fad))
                      \<lparr>closureStack := createClosure (closureStack (setEnvironment s (getEnvironment fad)))\<rparr>)))"
  let ?m = "tryFinally (rec (Some (body fad)) Undefined) (modify (\<lambda>s'. setEnvironment s' (getEnvironment s)))"
  have eq: "parseFunctionAgentData rec fad b cargs s =
        bind ?m (\<lambda>result. bind (flow (FlowState_unset RETURN)) (\<lambda>u. return result)) ?s1"
    by (simp add: parseFunctionAgentData_def comp_apply)
  obtain o1 s1' where m: "?m ?s1 = (o1, s1')" by fastforce
  show ?thesis
  proof (cases o1)
    case (Normal v)
    with m eq assms have s': "s' = s1'\<lparr>flowState := FlowState_unset RETURN (flowState s1')\<rparr>"
      by (simp add: bind_def flow_def comp_apply)
    from tryFinally_modify [OF m] Normal obtain s'' where "s1' = setEnvironment s'' (getEnvironment s)"
      by auto
    with s' show ?thesis by (simp add: setEnvironment_def getEnvironment_def getClone_def)
  next
    case (Throw e)
    with m eq assms have s': "s' = s1'" by (simp add: bind_def)
    from tryFinally_modify [OF m] Throw obtain s'' where "s1' = setEnvironment s'' (getEnvironment s)"
      by auto
    with s' show ?thesis by (simp add: setEnvironment_def getEnvironment_def getClone_def)
  next
    case OutOfFuel
    with m eq assms show ?thesis by (simp add: bind_def)
  qed
qed

text \<open>
  Claim C3: for every call of a function the interpreter produced, the environment
  \<open>{scriptUrl, closureStack}\<close> after the call is the one before it, whether the body
  returned or raised (for any behaviour \<open>rec\<close> of the evaluation of the body).
\<close>

theorem function_call_restores_environment:
  assumes "callFunctionAgent rec k receiver calledArguments s = (out, s')" and "out \<noteq> OutOfFuel"
  shows "getEnvironment s' = getEnvironment s"
proof (cases "k < length (functionAgents s)")
  case True
  let ?s0 = "s\<lparr>heap := heap s @ [\<lparr>cls = ArgumentsObject, props = arrayProps calledArguments\<rparr>]\<rparr>"
  from True assms(1) have
    "parseFunctionAgentData rec (functionAgents s ! k) (receiver, Obj (length (heap s))) calledArguments ?s0 = (out, s')"
    by (simp add: callFunctionAgent_def allocate_def bind_def comp_apply)
  from parseFunctionAgentData_environment [OF this assms(2)]
  show ?thesis by (simp add: getEnvironment_def)
next
  case False
  with assms(1) show ?thesis by (simp add: callFunctionAgent_def comp_apply)
qed

theorem function_call_restores_environment_witness:
  "fst (callFunctionAgent (eval exampleHost 20) 0 Undefined [] thisFunctionParser) \<noteq> OutOfFuel
   \<and> getEnvironment (snd (callFunctionAgent (eval exampleHost 20) 0 Undefined [] thisFunctionParser))
       = getEnvironment thisFunctionParser"
proof -
  have ne: "fst (callFunctionAgent (eval exampleHost 20) 0 Undefined [] thisFunctionParser) \<noteq> OutOfFuel"
    by code_simp
  show ?thesis
    using ne function_call_restores_environment [OF prod.collapse [symmetric] ne] by simp
qed

section \<open>The receiver of a function call\<close>

lemma currentFrame_set:
  "map_of (currentFrame (ClosureStack_set cs name v)) k =
     (if k = toPropertyKey name then Some v else map_of (currentFrame cs) k)"
  by (cases cs) (simp_all add: currentFrame_def update_conv')

lemma currentFrame_setVariables:
  "map_of (currentFrame (closureStack (setVariables name v s))) k =
     (if k = toPropertyKey name then Some v else map_of (currentFrame (closureStack s)) k)"
  by (simp add: setVariables_def currentFrame_set)

lemma setVariables_hostContext [simp]: "hostContext (setVariables name v s) = hostContext s"
  by (simp add: setVariables_def)

lemma setHoistings_hostContext [simp]: "hostContext (setHoistings hs s) = hostContext s"
  unfolding setHoistings_def by (induction hs arbitrary: s) simp_all

lemma foldl_setVariables_currentFrame:
  assumes "\<forall>i \<in> set is. toPropertyKey (f i) \<noteq> k"
  shows "map_of (currentFrame (closureStack (foldl (\<lambda>s' i. setVariables (f i) (g i) s') s is))) k
         = map_of (currentFrame (closureStack s)) k"
  using assms
  by (induction "is" arbitrary: s) (auto simp: currentFrame_setVariables)

lemma setCalledArguments_currentFrame:
  assumes "k \<notin> toPropertyKey ` set ps"
  shows "map_of (currentFrame (closureStack (setCalledArguments ps values s))) k
         = map_of (currentFrame (closureStack s)) k"
  unfolding setCalledArguments_def
  by (rule foldl_setVariables_currentFrame) (use assms in \<open>auto simp: image_iff\<close>)





section \<open>The check flag\<close>

text \<open>
  Claim C1 (the check flag is cleared on every exit path of a site that set it, also when
  the called method raises; it is false whenever \<open>parseAst\<close> returns): the code does not do
  this. In \<open>try { o.fail() } catch (e) {}\<close> the checker reports the call on \<open>o\<close>, the flag
  is set, the method raises, \<open>resetCheckFlag\<close> is skipped, and \<open>parseAst\<close> returns with
  the flag still set.
\<close>

theorem check_flag_stays_set_after_throwing_call:
  "(case parseAst exampleHost 20 throwingCallProgram Null exampleParser of
      (out, s) \<Rightarrow> (out, checkFlag s)) = (Normal (), True)"
  by code_simp

section \<open>The labelled do-while statement\<close>

text \<open>
  Claim C6 (every iteration of a labelled \<open>do-while\<close> consults \<open>isLoopNeededToBreak\<close> with
  the label of the statement): the code does not do this after the first iteration. In
  \<open>var i = 0; L: do { i = i + 1; if (i === 2) continue L } while (i < 3)\<close> the
  \<open>continue L\<close> of the second iteration is not consumed: the loop ends with \<open>i = 2\<close>
  and the CONTINUE flag is still set when \<open>parseAst\<close> returns.
\<close>

theorem labelled_continue_in_later_iteration_ends_do_while:
  "(case parseAst exampleHost 20 labelledDoWhileProgram Null exampleParser of
      (out, s) \<Rightarrow> (out, ClosureStack_get (closureStack s) (Str ''i''), state (flowState s)))
   = (Normal (), Num 2, {CONTINUE})"
  by code_simp

section \<open>The try statement\<close>

lemma getExceptionBlockResult_cases:
  "getExceptionBlockResult v s =
     (if isReturnState (flowState s)
      then (Normal (emptyResult\<lparr>rememberedValue := Some v\<rparr>),
            s\<lparr>flowState := FlowState_unset RETURN (flowState s)\<rparr>)
      else (Normal emptyResult, s))"
  by (simp add: getExceptionBlockResult_def flow_def comp_apply)

lemma handleExceptionBlock_no_error:
  "handleExceptionBlock rec block s = (Normal r, s') \<Longrightarrow> rememberedError r = None"
  by (auto simp: handleExceptionBlock_def bind_def getExceptionBlockResult_cases emptyResult_def
      split: prod.splits outcome.splits if_splits)

lemma handleCatchClause_never_raises:
  "handleCatchClause rec handler e s \<noteq> (Throw e', s')"
  by (auto simp: handleCatchClause_def tryCatch_def comp_apply split: option.splits prod.splits outcome.splits)

lemma block_and_catch_never_raise:
  "tryCatch (handleExceptionBlock rec (Some block)) (handleCatchClause rec handler) s \<noteq> (Throw e, s')"
  by (auto simp: tryCatch_def handleCatchClause_never_raises split: prod.splits outcome.splits)

lemma bind_return_right: "bind m return = m"
  by (rule ext) (simp add: bind_def return_apply split: prod.splits outcome.splits)

lemma assign_emptyResult [simp]: "assign emptyResult r = r"
  by (simp add: assign_def emptyResult_def split: option.splits)

text \<open>
  Claim C8: once the block, and the catch clause if the block raised, are done (they
  never raise together: the catch clause remembers what it raises), the finalizer is
  evaluated in the state they left; if it returns normally, a return value it observed
  wins over the one remembered before, a remembered value is returned with RETURN set
  again, otherwise a remembered error is raised, otherwise the result is undefined.
\<close>

theorem TryStatement_protocol:
  assumes "tryCatch (handleExceptionBlock rec (Some block)) (handleCatchClause rec handler) s = (out, s2)"
      and "out \<noteq> OutOfFuel"
      and "handleExceptionBlock rec finalizer s2 = (Normal r', s3)"
  shows "\<exists>r. out = Normal r
           \<and> TryStatement_parser rec block handler finalizer s =
             (case rememberedValue r' of
                Some v \<Rightarrow> (Normal v, s3\<lparr>flowState := FlowState_set RETURN (flowState s3)\<rparr>)
              | None \<Rightarrow>
                  (case rememberedValue r of
                     Some v \<Rightarrow> (Normal v, s3\<lparr>flowState := FlowState_set RETURN (flowState s3)\<rparr>)
                   | None \<Rightarrow>
                       (case rememberedError r of
                          Some e \<Rightarrow> (Throw e, s3)
                        | None \<Rightarrow> (Normal Undefined, s3))))"
proof -
  from assms(1,2) block_and_catch_never_raise [of rec block handler s] obtain r where r: "out = Normal r"
    by (cases out) auto
  have err: "rememberedError r' = None"
    using handleExceptionBlock_no_error [OF assms(3)] .
  have "TryStatement_parser rec block handler finalizer s = handleExceptionResult (assign r r') s3"
    using assms(1,3) r by (simp add: TryStatement_parser_def bind_return_right bind_Normal)
  with r err show ?thesis
    by (auto simp: handleExceptionResult_def assign_def flow_def comp_apply split: option.splits)
qed

theorem TryStatement_protocol_witness:
  "fst (tryCatch (handleExceptionBlock (eval exampleHost 20) (Some (fst returningTry)))
          (handleCatchClause (eval exampleHost 20) None) exampleParser) \<noteq> OutOfFuel
   \<and> fst (TryStatement_parser (eval exampleHost 20) (fst returningTry) None (snd returningTry) exampleParser)
       = Normal (Num 2)"
proof -
  let ?rec = "eval exampleHost 20"
  let ?stage = "tryCatch (handleExceptionBlock ?rec (Some (fst returningTry)))
                  (handleCatchClause ?rec None) exampleParser"
  let ?fin = "handleExceptionBlock ?rec (snd returningTry) (snd ?stage)"
  have ne: "fst ?stage \<noteq> OutOfFuel" by code_simp
  have fin: "fst ?fin = Normal (emptyResult\<lparr>rememberedValue := Some (Num 2)\<rparr>)" by code_simp
  then have fin': "?fin = (Normal (emptyResult\<lparr>rememberedValue := Some (Num 2)\<rparr>), snd ?fin)"
    by (metis prod.collapse)
  from TryStatement_protocol [OF prod.collapse [symmetric] ne fin']
  show ?thesis using ne by auto
qed

section \<open>Compound assignment to a member expression\<close>

lemma eval_Suc: "eval H (Suc fuel) (Some n) l =
   bind (parseByType H fuel (eval H fuel) n l) (\<lambda>result.
   bind (modify (handleStatementLabelState l)) (\<lambda>u. return result))"
  by (simp add: parseNode_def)

text \<open>
  Claim C9: an assignment with a compound operator whose left side is a member
  expression evaluates the object of the member expression twice: once for the
  reference \<open>{caller, callee}\<close>, and once more when the rewritten binary expression
  evaluates its left operand (the member expression itself, one level deeper in the
  walk). In the example the object \<open>(o.n++, o)\<close> counts its evaluations in \<open>o.n\<close>.
\<close>

theorem compound_member_assignment_evaluates_object_twice:
  assumes "transAssignmentOperator operator \<noteq> []"
  shows "eval H (Suc (Suc fuel))
           (Some (AssignmentExpression loc operator (MemberExpression object property computed) right)) l =
     bind (eval H (Suc fuel) (Some object) Undefined) (\<lambda>c.
     bind (getPropertyKey (eval H (Suc fuel)) property computed) (\<lambda>k.
     bind (eval H fuel (Some object) Undefined) (\<lambda>c'.
     bind (getPropertyKey (eval H fuel) property computed) (\<lambda>k'.
     bind (parseMemberExp H (eval H fuel) \<lparr>caller = c', callee = Plain k', info = None\<rparr>) (\<lambda>left.
     bind (modify (handleStatementLabelState Undefined)) (\<lambda>u.
     bind (eval H (Suc fuel) (Some right) Undefined) (\<lambda>right'.
     bind (case binaryOperators H (transAssignmentOperator operator) of
             Some operation \<Rightarrow> return (operation left right')
           | None \<Rightarrow> throw typeError) (\<lambda>v.
     bind (gets (getExpInfo H loc
             (AssignmentExpression loc operator (MemberExpression object property computed) right))) (\<lambda>i.
     bind (assignOperator H \<lparr>caller = c, callee = Plain k, info = Some i\<rparr> v) (\<lambda>result.
     bind (modify (handleStatementLabelState l)) (\<lambda>u.
     return result)))))))))))"
proof -
  have member: "eval H (Suc fuel) (Some (MemberExpression object property computed)) Undefined =
     bind (eval H fuel (Some object) Undefined) (\<lambda>c'.
     bind (getPropertyKey (eval H fuel) property computed) (\<lambda>k'.
     bind (parseMemberExp H (eval H fuel) \<lparr>caller = c', callee = Plain k', info = None\<rparr>) (\<lambda>left.
     bind (modify (handleStatementLabelState Undefined)) (\<lambda>u. return left))))"
    unfolding eval_Suc parseByType_def MemberExpression_parser_def getMemberExp_def
    by (simp only: node.case bind_assoc bind_return)
  show ?thesis
    unfolding eval_Suc [of H "Suc fuel"] parseByType_def AssignmentExpression_parser_def
      getRefExp_def getMemberExp_def getAssignValue_def BinaryExpression_parser_def
    using assms
    by (simp only: node.case bind_assoc bind_return member simp_thms if_True exp.simps exp.update_convs)
qed

theorem compound_member_assignment_evaluates_object_twice_witness:
  "transAssignmentOperator ''+='' \<noteq> []
   \<and> (case eval exampleHost 20 (Some compoundMemberAssignment) Undefined exampleParser of
         (out, s) \<Rightarrow> (out, map_of (props (heapGet (heap s) 1)) ''n'')) = (Normal Undefined, Some (Num 2))"
proof -
  have h: "transAssignmentOperator ''+='' \<noteq> []" by code_simp
  note eq = compound_member_assignment_evaluates_object_twice
              [OF h, of exampleHost 18 0 countingObject "Identifier ''k''" False "Literal (Num 10) None" Undefined]
  have "(case
     bind (eval exampleHost (Suc 18) (Some countingObject) Undefined) (\<lambda>c.
     bind (getPropertyKey (eval exampleHost (Suc 18)) (Identifier ''k'') False) (\<lambda>k.
     bind (eval exampleHost 18 (Some countingObject) Undefined) (\<lambda>c'.
     bind (getPropertyKey (eval exampleHost 18) (Identifier ''k'') False) (\<lambda>k'.
     bind (parseMemberExp exampleHost (eval exampleHost 18) \<lparr>caller = c', callee = Plain k', info = None\<rparr>) (\<lambda>left.
     bind (modify (handleStatementLabelState Undefined)) (\<lambda>u.
     bind (eval exampleHost (Suc 18) (Some (Literal (Num 10) None)) Undefined) (\<lambda>right'.
     bind (case binaryOperators exampleHost (transAssignmentOperator ''+='') of
             Some operation \<Rightarrow> return (operation left right')
           | None \<Rightarrow> throw typeError) (\<lambda>v.
     bind (gets (getExpInfo exampleHost 0
             (AssignmentExpression 0 ''+='' (MemberExpression countingObject (Identifier ''k'') False) (Literal (Num 10) None)))) (\<lambda>i.
     bind (assignOperator exampleHost \<lparr>caller = c, callee = Plain k, info = Some i\<rparr> v) (\<lambda>result.
     bind (modify (handleStatementLabelState Undefined)) (\<lambda>u.
     return result))))))))))) exampleParser of
         (out, s) \<Rightarrow> (out, map_of (props (heapGet (heap s) 1)) ''n'')) = (Normal Undefined, Some (Num 2))"
    by code_simp
  with eq have "(case eval exampleHost (Suc (Suc 18)) (Some compoundMemberAssignment) Undefined exampleParser of
         (out, s) \<Rightarrow> (out, map_of (props (heapGet (heap s) 1)) ''n'')) = (Normal Undefined, Some (Num 2))"
    by (simp only: compoundMemberAssignment_def)
  moreover have "Suc (Suc 18) = 20" by simp
  ultimately show ?thesis using h by (simp only: simp_thms)
qed

section \<open>Hoisting\<close>

text \<open>
  \<open>parseHoisting\<close> is the source's: its \<open>default\<close> branch is \<open>searchSubHoistings\<close>, and it
  collects every name of section 4.4 of the specification.
\<close>

lemma concat_case_consequents:
  "concat (map (\<lambda>c. concat (map f (snd c))) cases) = concat (map f (concat (map snd cases)))"
  by (induction cases) auto

lemma parseHoisting_searchSubHoistings:
  "parseHoisting st =
     (case st of
        FunctionDeclaration i ps b \<Rightarrow> [getNameFromPattern i]
      | VariableDeclaration kind declarations \<Rightarrow>
          if kind = ''var'' then getNameFromVariableDeclaration declarations else []
      | _ \<Rightarrow> searchSubHoistings st)"
  by (cases st)
     (auto simp: searchSubHoistings_def searchHoistings_def filterSubStatements_def
        concat_case_consequents comp_def split: option.splits)

lemma specHoists_parseHoisting: "specHoists st name \<Longrightarrow> name \<in> set (parseHoisting st)"
  by (induction rule: specHoists.induct)
     (auto simp: getNameFromVariableDeclaration_def split: option.splits)

lemma searchHoistings_Some: "set (searchHoistings (map Some sts)) = (\<Union>st \<in> set sts. set (parseHoisting st))"
  by (auto simp: searchHoistings_def)

lemma setHoistings_currentFrame:
  "map_of (currentFrame (closureStack (setHoistings hs s))) k =
     (if k \<in> toPropertyKey ` set hs then Some Undefined else map_of (currentFrame (closureStack s)) k)"
  unfolding setHoistings_def
  by (induction hs arbitrary: s) (auto simp: currentFrame_setVariables)

lemma handleHoisting_binds:
  assumes "st \<in> set statements" and "specHoists st name"
  shows "map_of (currentFrame (closureStack (handleHoisting statements s))) (toPropertyKey name) = Some Undefined"
proof -
  have "name \<in> set (searchHoistings (map Some statements))"
    using assms specHoists_parseHoisting by (auto simp: searchHoistings_Some)
  then show ?thesis
    by (simp add: handleHoisting_def setHoistings_currentFrame)
qed


lemma setBuiltInArguments_currentFrame_other:
  assumes "k \<noteq> ''this''" and "k \<noteq> ''arguments''"
  shows "map_of (currentFrame (closureStack (setBuiltInArguments b s))) k
         = map_of (currentFrame (closureStack s)) k"
  using assms by (simp add: setBuiltInArguments_def currentFrame_setVariables)

lemma function_entry_binds:
  assumes "name \<in> set (hoistings fad)"
      and "toPropertyKey name \<noteq> ''this''" and "toPropertyKey name \<noteq> ''arguments''"
      and "toPropertyKey name \<notin> toPropertyKey ` set (params fad)"
  shows "map_of (currentFrame (closureStack
           (setCalledArguments (params fad) calledArguments
              (setBuiltInArguments b (setHoistings (hoistings fad) s))))) (toPropertyKey name)
         = Some Undefined"
  using assms
  by (simp add: setCalledArguments_currentFrame setBuiltInArguments_currentFrame_other
      setHoistings_currentFrame)

lemma handleStatementLabelState_keeps [simp]:
  "closureStack (handleStatementLabelState l s) = closureStack s"
  "functionAgents (handleStatementLabelState l s) = functionAgents s"
  by (simp_all add: handleStatementLabelState_def)

lemma eval_FunctionDeclaration:
  "eval H (Suc fuel) (Some (FunctionDeclaration i ps b)) Undefined s =
     (Normal Undefined,
      handleStatementLabelState Undefined
        (setVariables (getNameFromPattern i) (Fun (length (functionAgents s)))
           (s\<lparr>functionAgents := functionAgents s @ [parseFunctionExpression ps b s]\<rparr>)))"
  by (simp add: parseNode_def parseByType_def FunctionDeclaration_parser_def
      createFunctionAgent_def wrapWithFunction_def bind_def comp_apply)

lemma isHoistingStatement_FunctionDeclaration:
  "isHoistingStatement (eval H (Suc fuel)) (FunctionDeclaration i ps b) s =
     (Normal True,
      handleStatementLabelState Undefined
        (setVariables (getNameFromPattern i) (Fun (length (functionAgents s)))
           (s\<lparr>functionAgents := functionAgents s @ [parseFunctionExpression ps b s]\<rparr>)))"
  by (simp add: isHoistingStatement_def bind_def eval_FunctionDeclaration comp_apply del: eval.simps)

lemma isHoistingStatement_other:
  assumes "\<not> (\<exists>i ps b. st = FunctionDeclaration i ps b)"
  shows "isHoistingStatement rec st = return False"
  using assms by (cases st) (simp_all add: isHoistingStatement_def)

lemma parseHoistingStatements_append:
  "parseHoistingStatements rec (xs @ ys) =
     bind (parseHoistingStatements rec xs) (\<lambda>a.
     bind (parseHoistingStatements rec ys) (\<lambda>b. return (a @ b)))"
proof (induction xs)
  case Nil
  show ?case by (simp add: bind_return_right)
next
  case (Cons x xs)
  show ?case
    by (simp add: Cons.IH bind_assoc if_distrib [of "\<lambda>xs. xs @ _"] cong: if_cong)
qed

lemma parseHoistingStatements_preserves:
  assumes "parseHoistingStatements (eval H (Suc fuel)) sts s = (Normal rest, s')"
      and "\<forall>i ps b. FunctionDeclaration i ps b \<in> set sts \<longrightarrow> toPropertyKey (getNameFromPattern i) \<noteq> f"
  shows "map_of (currentFrame (closureStack s')) f = map_of (currentFrame (closureStack s)) f
         \<and> (\<exists>ext. functionAgents s' = functionAgents s @ ext)"
  using assms
proof (induction sts arbitrary: s rest s')
  case Nil
  then show ?case by (simp add: comp_apply)
next
  case (Cons st sts)
  show ?case
  proof (cases "\<exists>i ps b. st = FunctionDeclaration i ps b")
    case True
    then obtain i ps b where st: "st = FunctionDeclaration i ps b" by blast
    let ?s1 = "handleStatementLabelState Undefined
        (setVariables (getNameFromPattern i) (Fun (length (functionAgents s)))
           (s\<lparr>functionAgents := functionAgents s @ [parseFunctionExpression ps b s]\<rparr>))"
    from Cons.prems(1) st obtain rest' where
      tail: "parseHoistingStatements (eval H (Suc fuel)) sts ?s1 = (Normal rest', s')"
      by (auto simp: isHoistingStatement_FunctionDeclaration bind_def comp_apply
          simp del: eval.simps split: prod.splits outcome.splits)
    have key: "toPropertyKey (getNameFromPattern i) \<noteq> f"
      using Cons.prems(2) st by simp
    have others: "\<forall>i ps b. FunctionDeclaration i ps b \<in> set sts
                    \<longrightarrow> toPropertyKey (getNameFromPattern i) \<noteq> f"
      using Cons.prems(2) by simp
    from Cons.IH [OF tail others] key show ?thesis
      by (auto simp: currentFrame_setVariables) (simp add: setVariables_def)
  next
    case False
    then have "isHoistingStatement (eval H (Suc fuel)) st = return False"
      by (rule isHoistingStatement_other)
    with Cons.prems(1) obtain rest' where
      tail: "parseHoistingStatements (eval H (Suc fuel)) sts s = (Normal rest', s')"
      by (auto simp: bind_def comp_apply simp del: eval.simps split: prod.splits outcome.splits)
    have others: "\<forall>i ps b. FunctionDeclaration i ps b \<in> set sts
                    \<longrightarrow> toPropertyKey (getNameFromPattern i) \<noteq> f"
      using Cons.prems(2) by simp
    from Cons.IH [OF tail others] show ?thesis by simp
  qed
qed

lemma function_declaration_bound:
  assumes run: "parseHoistingStatements (eval H (Suc fuel)) (pre @ FunctionDeclaration i ps b # post) s
                  = (Normal rest, s')"
      and last: "\<forall>i' ps' b'. FunctionDeclaration i' ps' b' \<in> set post
                   \<longrightarrow> toPropertyKey (getNameFromPattern i') \<noteq> toPropertyKey (getNameFromPattern i)"
  shows "\<exists>k. map_of (currentFrame (closureStack s')) (toPropertyKey (getNameFromPattern i)) = Some (Fun k)
            \<and> k < length (functionAgents s')
            \<and> body (functionAgents s' ! k) = b
            \<and> params (functionAgents s' ! k) = parseFunctionParams ps"
proof -
  from run obtain r1 s1 where
    pre: "parseHoistingStatements (eval H (Suc fuel)) pre s = (Normal r1, s1)"
    by (auto simp: parseHoistingStatements_append bind_def comp_apply
        simp del: eval.simps parseHoistingStatements.simps
        split: prod.splits outcome.splits)
  let ?s2 = "handleStatementLabelState Undefined
        (setVariables (getNameFromPattern i) (Fun (length (functionAgents s1)))
           (s1\<lparr>functionAgents := functionAgents s1 @ [parseFunctionExpression ps b s1]\<rparr>))"
  from run pre obtain r3 where
    post: "parseHoistingStatements (eval H (Suc fuel)) post ?s2 = (Normal r3, s')"
    by (auto simp: parseHoistingStatements_append bind_def isHoistingStatement_FunctionDeclaration
        comp_apply simp del: eval.simps split: prod.splits outcome.splits)
  from parseHoistingStatements_preserves [OF post last]
  obtain ext where
    f: "map_of (currentFrame (closureStack s')) (toPropertyKey (getNameFromPattern i))
          = map_of (currentFrame (closureStack ?s2)) (toPropertyKey (getNameFromPattern i))"
    and ext: "functionAgents s' = functionAgents ?s2 @ ext"
    by blast
  have "map_of (currentFrame (closureStack ?s2)) (toPropertyKey (getNameFromPattern i))
          = Some (Fun (length (functionAgents s1)))"
    by (simp add: currentFrame_setVariables)
  moreover have "functionAgents ?s2 = functionAgents s1 @ [parseFunctionExpression ps b s1]"
    by (simp add: setVariables_def)
  ultimately show ?thesis
    using f ext by (auto simp: nth_append parseFunctionExpression_def)
qed

text \<open>
  Claim C4, amended. (1) When the pre-pass of a program body returns, every name of
  section 4.4 is bound to undefined in the current frame, and the statements run from
  that state. (2) A function body is evaluated in a state \<open>sb\<close> whose fresh frame binds
  every such name of the body to undefined, unless the name is \<open>this\<close>, \<open>arguments\<close> or
  the name of a formal parameter: those are bound after the hoistings and keep the
  values of the invocation. (3) In every statement list the name of a function
  declaration appearing directly in it is bound, when the first statement that is not a
  function declaration executes, to the function value of the declaration (the last one
  of that name in the list).
\<close>

theorem hoisting_before_statements:
  "(\<forall>st name. st \<in> set statements \<and> specHoists st name \<longrightarrow>
       map_of (currentFrame (closureStack (handleHoisting statements s))) (toPropertyKey name)
         = Some Undefined)
   \<and> Program_parser rec statements s =
       bind (parseStatements rec statements) (\<lambda>r. return Undefined) (handleHoisting statements s)
   \<and> (body fad = BlockStatement statements \<and> hoistings fad = searchHoistings [Some (body fad)] \<longrightarrow>
       (\<exists>sb. (\<forall>st name. st \<in> set statements \<and> specHoists st name
                  \<and> toPropertyKey name \<noteq> ''this'' \<and> toPropertyKey name \<noteq> ''arguments''
                  \<and> toPropertyKey name \<notin> toPropertyKey ` set (params fad) \<longrightarrow>
                  map_of (currentFrame (closureStack sb)) (toPropertyKey name) = Some Undefined)
            \<and> parseFunctionAgentData rec fad builtInArguments calledArguments s =
                bind (tryFinally (rec (Some (body fad)) Undefined)
                        (modify (\<lambda>s'. setEnvironment s' (getEnvironment s))))
                  (\<lambda>result. bind (flow (FlowState_unset RETURN)) (\<lambda>u. return result)) sb))
   \<and> (\<forall>pre i ps b post rest s'.
         statements = pre @ FunctionDeclaration i ps b # post
         \<and> (\<forall>i' ps' b'. FunctionDeclaration i' ps' b' \<in> set post \<longrightarrow>
               toPropertyKey (getNameFromPattern i') \<noteq> toPropertyKey (getNameFromPattern i))
         \<and> parseHoistingStatements (eval H (Suc fuel)) statements s = (Normal rest, s') \<longrightarrow>
         parseStatements (eval H (Suc fuel)) statements s
           = parseNonHoistingStatements (eval H (Suc fuel)) rest s'
         \<and> (\<exists>k. map_of (currentFrame (closureStack s')) (toPropertyKey (getNameFromPattern i)) = Some (Fun k)
                \<and> k < length (functionAgents s')
                \<and> body (functionAgents s' ! k) = b
                \<and> params (functionAgents s' ! k) = parseFunctionParams ps))"
proof (intro conjI allI impI)
  fix st name
  assume "st \<in> set statements \<and> specHoists st name"
  then show "map_of (currentFrame (closureStack (handleHoisting statements s))) (toPropertyKey name)
         = Some Undefined"
    using handleHoisting_binds by blast
next
  show "Program_parser rec statements s =
       bind (parseStatements rec statements) (\<lambda>r. return Undefined) (handleHoisting statements s)"
    by (simp add: Program_parser_def bind_modify)
next
  assume fad: "body fad = BlockStatement statements \<and> hoistings fad = searchHoistings [Some (body fad)]"
  let ?s0 = "(setEnvironment s (getEnvironment fad))
               \<lparr>closureStack := createClosure (closureStack (setEnvironment s (getEnvironment fad)))\<rparr>"
  let ?sb = "setCalledArguments (params fad) calledArguments
               (setBuiltInArguments builtInArguments (setHoistings (hoistings fad) ?s0))"
  have names: "\<And>st name. st \<in> set statements \<Longrightarrow> specHoists st name \<Longrightarrow> name \<in> set (hoistings fad)"
    using fad specHoists_parseHoisting by (auto simp: searchHoistings_def)
  have 1: "\<forall>st name. st \<in> set statements \<and> specHoists st name
                  \<and> toPropertyKey name \<noteq> ''this'' \<and> toPropertyKey name \<noteq> ''arguments''
                  \<and> toPropertyKey name \<notin> toPropertyKey ` set (params fad) \<longrightarrow>
                  map_of (currentFrame (closureStack ?sb)) (toPropertyKey name) = Some Undefined"
    using names function_entry_binds by blast
  have 2: "parseFunctionAgentData rec fad builtInArguments calledArguments s =
                bind (tryFinally (rec (Some (body fad)) Undefined)
                        (modify (\<lambda>s'. setEnvironment s' (getEnvironment s))))
                  (\<lambda>result. bind (flow (FlowState_unset RETURN)) (\<lambda>u. return result)) ?sb"
    by (simp add: parseFunctionAgentData_def comp_apply)
  from 1 2 show "\<exists>sb. (\<forall>st name. st \<in> set statements \<and> specHoists st name
                  \<and> toPropertyKey name \<noteq> ''this'' \<and> toPropertyKey name \<noteq> ''arguments''
                  \<and> toPropertyKey name \<notin> toPropertyKey ` set (params fad) \<longrightarrow>
                  map_of (currentFrame (closureStack sb)) (toPropertyKey name) = Some Undefined)
            \<and> parseFunctionAgentData rec fad builtInArguments calledArguments s =
                bind (tryFinally (rec (Some (body fad)) Undefined)
                        (modify (\<lambda>s'. setEnvironment s' (getEnvironment s))))
                  (\<lambda>result. bind (flow (FlowState_unset RETURN)) (\<lambda>u. return result)) sb"
    by blast
next
  fix pre i ps b post rest s'
  assume a: "statements = pre @ FunctionDeclaration i ps b # post
         \<and> (\<forall>i' ps' b'. FunctionDeclaration i' ps' b' \<in> set post \<longrightarrow>
               toPropertyKey (getNameFromPattern i') \<noteq> toPropertyKey (getNameFromPattern i))
         \<and> parseHoistingStatements (eval H (Suc fuel)) statements s = (Normal rest, s')"
  then have run: "parseHoistingStatements (eval H (Suc fuel)) statements s = (Normal rest, s')"
    by blast
  show "parseStatements (eval H (Suc fuel)) statements s
           = parseNonHoistingStatements (eval H (Suc fuel)) rest s'"
    unfolding parseStatements_def using run by (simp add: bind_def del: eval.simps)
  from a show "\<exists>k. map_of (currentFrame (closureStack s')) (toPropertyKey (getNameFromPattern i)) = Some (Fun k)
                \<and> k < length (functionAgents s')
                \<and> body (functionAgents s' ! k) = b
                \<and> params (functionAgents s' ! k) = parseFunctionParams ps"
    using function_declaration_bound [of H fuel pre i ps b post s rest s'] by blast
qed

theorem hoisting_before_statements_witness:
  "map_of (currentFrame (closureStack (handleHoisting hoistingProgram exampleParser))) ''x'' = Some Undefined
   \<and> (\<exists>k. map_of (currentFrame (closureStack
               (snd (parseHoistingStatements (eval exampleHost 5) hoistingProgram exampleParser)))) ''g''
             = Some (Fun k))
   \<and> (\<exists>sb. map_of (currentFrame (closureStack sb)) ''y'' = Some Undefined
          \<and> parseFunctionAgentData (eval exampleHost 5) shadowingFunctionData (Undefined, Undefined) [Num 1]
               exampleParser =
             bind (tryFinally (eval exampleHost 5 (Some (body shadowingFunctionData)) Undefined)
                     (modify (\<lambda>s'. setEnvironment s' (getEnvironment exampleParser))))
               (\<lambda>result. bind (flow (FlowState_unset RETURN)) (\<lambda>u. return result)) sb)"
proof (intro conjI)
  let ?decl = "VariableDeclaration ''var'' [(Identifier ''x'', Some (Literal (Num 1) None))]"
  let ?if = "IfStatement (Identifier ''c'') (BlockStatement [?decl]) None"
  let ?fn = "FunctionDeclaration (Identifier ''g'') [] (BlockStatement [])"
  note inst = hoisting_before_statements
               [of hoistingProgram exampleParser "eval exampleHost 5" shadowingFunctionData
                   "(Undefined, Undefined)" "[Num 1]" exampleHost 4]
  have "specHoists ?decl (getNameFromPattern (fst (Identifier ''x'', Some (Literal (Num 1) None))))"
    by (rule hoists_var) simp
  then have "specHoists ?decl (Str ''x'')"
    by (simp add: getNameFromPattern_def)
  then have "specHoists ?if (Str ''x'')"
    by (intro hoists_consequent hoists_block [of ?decl]) simp_all
  moreover have "?if \<in> set hoistingProgram"
    by (simp add: hoistingProgram_def)
  ultimately show "map_of (currentFrame (closureStack (handleHoisting hoistingProgram exampleParser))) ''x''
      = Some Undefined"
    using inst by (metis toPropertyKey.simps(5))
next
  let ?decl = "VariableDeclaration ''var'' [(Identifier ''x'', Some (Literal (Num 1) None))]"
  let ?if = "IfStatement (Identifier ''c'') (BlockStatement [?decl]) None"
  note inst = hoisting_before_statements
               [of hoistingProgram exampleParser "eval exampleHost 5" shadowingFunctionData
                   "(Undefined, Undefined)" "[Num 1]" exampleHost 4]
  let ?run = "parseHoistingStatements (eval exampleHost (Suc 4)) hoistingProgram exampleParser"
  have five: "Suc 4 = 5" by simp
  have "fst ?run = Normal [?if]"
    by code_simp
  then have run: "?run = (Normal [?if], snd ?run)"
    by (metis prod.collapse)
  have parts: "hoistingProgram = [?if] @ FunctionDeclaration (Identifier ''g'') [] (BlockStatement []) # []"
    by (simp add: hoistingProgram_def)
  have none: "\<forall>i' ps' b'. FunctionDeclaration i' ps' b' \<in> set []
                \<longrightarrow> toPropertyKey (getNameFromPattern i') \<noteq> toPropertyKey (getNameFromPattern (Identifier ''g''))"
    by simp
  from inst parts none run
  have "\<exists>k. map_of (currentFrame (closureStack (snd ?run)))
              (toPropertyKey (getNameFromPattern (Identifier ''g''))) = Some (Fun k)
            \<and> k < length (functionAgents (snd ?run))
            \<and> body (functionAgents (snd ?run) ! k) = BlockStatement []
            \<and> params (functionAgents (snd ?run) ! k) = parseFunctionParams []"
    by blast
  then show "\<exists>k. map_of (currentFrame (closureStack
               (snd (parseHoistingStatements (eval exampleHost 5) hoistingProgram exampleParser)))) ''g''
             = Some (Fun k)"
    by (auto simp: getNameFromPattern_def five simp del: eval.simps)
next
  let ?decl = "VariableDeclaration ''var'' [(Identifier ''x'', None), (Identifier ''y'', None)]"
  let ?body = "[?decl, ReturnStatement (Some (Identifier ''x''))]"
  note inst = hoisting_before_statements
               [of ?body exampleParser "eval exampleHost 5" shadowingFunctionData
                   "(Undefined, Undefined)" "[Num 1]" exampleHost 4]
  have fad: "body shadowingFunctionData = BlockStatement ?body
             \<and> hoistings shadowingFunctionData = searchHoistings [Some (body shadowingFunctionData)]"
    by (simp add: shadowingFunctionData_def parseFunctionExpression_def)
  have y: "specHoists ?decl (Str ''y'')"
    using hoists_var [of "(Identifier ''y'', None)" "[(Identifier ''x'', None), (Identifier ''y'', None)]"]
    by (simp add: getNameFromPattern_def)
  have keys: "toPropertyKey (Str ''y'') \<noteq> ''this'' \<and> toPropertyKey (Str ''y'') \<noteq> ''arguments''
              \<and> toPropertyKey (Str ''y'') \<notin> toPropertyKey ` set (params shadowingFunctionData)"
    by (simp add: shadowingFunctionData_def parseFunctionExpression_def parseFunctionParams_def
        getNameFromPattern_def)
  have mem: "?decl \<in> set ?body" by simp
  from inst fad obtain sb where
    sb: "\<forall>st name. st \<in> set ?body \<and> specHoists st name
                  \<and> toPropertyKey name \<noteq> ''this'' \<and> toPropertyKey name \<noteq> ''arguments''
                  \<and> toPropertyKey name \<notin> toPropertyKey ` set (params shadowingFunctionData) \<longrightarrow>
                  map_of (currentFrame (closureStack sb)) (toPropertyKey name) = Some Undefined"
    and eq: "parseFunctionAgentData (eval exampleHost 5) shadowingFunctionData (Undefined, Undefined) [Num 1]
               exampleParser =
             bind (tryFinally (eval exampleHost 5 (Some (body shadowingFunctionData)) Undefined)
                     (modify (\<lambda>s'. setEnvironment s' (getEnvironment exampleParser))))
               (\<lambda>result. bind (flow (FlowState_unset RETURN)) (\<lambda>u. return result)) sb"
    by blast
  from sb mem y keys have "map_of (currentFrame (closureStack sb)) (toPropertyKey (Str ''y'')) = Some Undefined"
    by blast
  with eq show "\<exists>sb. map_of (currentFrame (closureStack sb)) ''y'' = Some Undefined
          \<and> parseFunctionAgentData (eval exampleHost 5) shadowingFunctionData (Undefined, Undefined) [Num 1]
               exampleParser =
             bind (tryFinally (eval exampleHost 5 (Some (body shadowingFunctionData)) Undefined)
                     (modify (\<lambda>s'. setEnvironment s' (getEnvironment exampleParser))))
               (\<lambda>result. bind (flow (FlowState_unset RETURN)) (\<lambda>u. return result)) sb"
    by auto
qed

text \<open>
  Claim C4 as stated fails for a function body: in
  \<open>(function (x) { var x, y; return x })(1)\<close> the name \<open>x\<close> is var-declared, and the first
  statement to execute finds it bound to the argument 1, not to undefined.
\<close>

theorem function_parameter_shadows_hoisted_var:
  "fst (parseAst exampleHost 20 shadowingFunctionProgram Null exampleParser) = Normal ()
   \<and> ClosureStack_get
         (closureStack (snd (parseAst exampleHost 20 shadowingFunctionProgram Null exampleParser)))
         (Str ''r'') = Num 1"
  by code_simp

section \<open>Containment of the return signal\<close>






































section \<open>The host operations contain the return signal\<close>















section \<open>Loops keep the return signal\<close>







section \<open>Statement lists\<close>






section \<open>The try statement clears what it sets\<close>





section \<open>A function call clears the return signal\<close>






section \<open>Every method of the dispatcher contains the return signal\<close>

lemma isReturnState_flags [simp]:
  "isReturnState (setBreak fs) = isReturnState fs"
  "isReturnState (setContinue fs) = isReturnState fs"
  "isReturnState (unsetBreak fs) = isReturnState fs"
  "isReturnState (unsetContinue fs) = isReturnState fs"
  "isReturnState (setLabel l fs) = isReturnState fs"
  "isReturnState (unsetLabel fs) = isReturnState fs"
  "isReturnState (FlowState_unset BREAK fs) = isReturnState fs"
  "isReturnState (FlowState_unset CONTINUE fs) = isReturnState fs"
  by (simp_all add: isReturnState_def setBreak_def setContinue_def unsetBreak_def unsetContinue_def
      setLabel_def unsetLabel_def FlowState_set_def FlowState_unset_def)
















































section \<open>Loops, switches and labelled statements keep the return signal\<close>























end
